theory Spec2Isabelle
  imports
    Complex_Main
    "HOL-Library.Char_ord"
    "HOL-Library.List_Lexorder"
    "HOL-Library.Multiset"
begin

section \<open>CloudBib: annotation merge, sidecar envelope, library service and sync service\<close>

text \<open>
  A shallow embedding of the TypeScript services of CloudBib.
  JavaScript strings are modelled as \<^typ>\<open>string\<close>; the relational operators of
  JavaScript on strings (\<^verbatim>\<open>a > b\<close>) and the text comparison of SQLite both compare
  code unit by code unit, which is the lexicographic order on \<^typ>\<open>string\<close>.
  JavaScript numbers that hold coordinates are modelled as exact reals, integer
  columns and counters as \<^typ>\<open>int\<close> or \<^typ>\<open>nat\<close>.
\<close>

subsection \<open>Core types (models/types.ts)\<close>

datatype AnnotationType = Highlight | Note | Area

record Rect =
  rect_x1 :: real
  rect_y1 :: real
  rect_x2 :: real
  rect_y2 :: real

record Position =
  pos_x :: real
  pos_y :: real

text \<open>Optional members (\<^verbatim>\<open>rects?\<close>, \<^verbatim>\<open>position?\<close>, ...) are \<^typ>\<open>'a option\<close>,
  \<^const>\<open>None\<close> standing for \<^verbatim>\<open>undefined\<close>.\<close>

record Annotation =
  ann_id :: string
  ann_type :: AnnotationType
  ann_page :: int
  ann_rects :: "Rect list option"
  ann_position :: "Position option"
  ann_color :: "string option"
  ann_text :: "string option"
  ann_content :: "string option"
  ann_comment :: "string option"
  ann_createdBy :: string
  ann_createdAt :: string
  ann_modifiedAt :: string

subsection \<open>The JavaScript \<^verbatim>\<open>Map\<close> and \<^verbatim>\<open>Array.prototype.sort\<close>\<close>

text \<open>
  A \<^verbatim>\<open>Map<string, V>\<close> iterates in the order in which its keys were first inserted;
  \<^verbatim>\<open>set\<close> on a key that is present replaces the value in place. It is an association
  list with unique keys.
\<close>

type_synonym 'v jsMap = "(string \<times> 'v) list"

fun mapGet :: "'v jsMap \<Rightarrow> string \<Rightarrow> 'v option" where
  "mapGet [] k = None"
| "mapGet ((k', v') # m) k = (if k' = k then Some v' else mapGet m k)"

fun mapSet :: "'v jsMap \<Rightarrow> string \<Rightarrow> 'v \<Rightarrow> 'v jsMap" where
  "mapSet [] k v = [(k, v)]"
| "mapSet ((k', v') # m) k v = (if k' = k then (k, v) # m else (k', v') # mapSet m k v)"

definition mapValues :: "'v jsMap \<Rightarrow> 'v list" where
  "mapValues m = map snd m"

text \<open>
  \<^verbatim>\<open>Array.prototype.sort(cmp)\<close> is a stable sort: \<^verbatim>\<open>a\<close> comes before \<^verbatim>\<open>b\<close> when
  \<^verbatim>\<open>cmp(a, b) < 0\<close>, and elements that compare equal keep their order. It is modelled by
  the stable insertion sort; for a comparator that is a total preorder every stable
  sort returns the same array.
\<close>

fun sortInsert :: "('a \<Rightarrow> 'a \<Rightarrow> real) \<Rightarrow> 'a \<Rightarrow> 'a list \<Rightarrow> 'a list" where
  "sortInsert cmp a [] = [a]"
| "sortInsert cmp a (b # bs) =
     (if cmp a b \<le> 0 then a # b # bs else b # sortInsert cmp a bs)"

definition jsSort :: "('a \<Rightarrow> 'a \<Rightarrow> real) \<Rightarrow> 'a list \<Rightarrow> 'a list" where
  "jsSort cmp xs = foldr (sortInsert cmp) xs []"

subsection \<open>Merge strategy (annotation.service.ts, mergeAnnotations)\<close>

text \<open>\<^verbatim>\<open>a.rects?.[0]?.y1 ?? a.position?.y ?? 0\<close>\<close>

definition verticalPosition :: "Annotation \<Rightarrow> real" where
  "verticalPosition a =
     (case ann_rects a of
        Some (r # rs) \<Rightarrow> rect_y1 r
      | _ \<Rightarrow> (case ann_position a of Some p \<Rightarrow> pos_y p | None \<Rightarrow> 0))"

text \<open>The comparator handed to \<^verbatim>\<open>sort\<close>.\<close>

definition compareAnnotations :: "Annotation \<Rightarrow> Annotation \<Rightarrow> real" where
  "compareAnnotations a b =
     (if ann_page a \<noteq> ann_page b then real_of_int (ann_page a - ann_page b)
      else verticalPosition b - verticalPosition a)"

text \<open>First loop: \<^verbatim>\<open>for (const ann of local) merged.set(ann.id, ann)\<close>.\<close>

definition addLocal :: "Annotation jsMap \<Rightarrow> Annotation \<Rightarrow> Annotation jsMap" where
  "addLocal merged ann = mapSet merged (ann_id ann) ann"

text \<open>Body of the second loop, over \<^verbatim>\<open>remote\<close>.\<close>

definition mergeRemote :: "Annotation jsMap \<Rightarrow> Annotation \<Rightarrow> Annotation jsMap" where
  "mergeRemote merged ann =
     (case mapGet merged (ann_id ann) of
        None \<Rightarrow> mapSet merged (ann_id ann) ann
      | Some existing \<Rightarrow>
          (if ann_modifiedAt ann > ann_modifiedAt existing
           then mapSet merged (ann_id ann) ann
           else merged))"

definition mergedMap :: "Annotation list \<Rightarrow> Annotation list \<Rightarrow> Annotation jsMap" where
  "mergedMap local remote =
     fold (\<lambda>ann m. mergeRemote m ann) remote (fold (\<lambda>ann m. addLocal m ann) local [])"

definition mergeAnnotations :: "Annotation list \<Rightarrow> Annotation list \<Rightarrow> Annotation list" where
  "mergeAnnotations local remote =
     jsSort compareAnnotations (mapValues (mergedMap local remote))"

text \<open>
  The vertical position as the specification words it: the \<^emph>\<open>top-most\<close> rectangle's
  \<open>y1\<close> (in PDF coordinates a higher \<open>y\<close> is higher on the page), else the note's point
  \<open>y\<close>, else 0. Used only to compare the specification's wording with
  \<^const>\<open>verticalPosition\<close>.
\<close>

definition verticalPosition_spec :: "Annotation \<Rightarrow> real" where
  "verticalPosition_spec a =
     (case ann_rects a of
        Some (r # rs) \<Rightarrow> fold max (map rect_y1 rs) (rect_y1 r)
      | _ \<Rightarrow> (case ann_position a of Some p \<Rightarrow> pos_y p | None \<Rightarrow> 0))"

text \<open>Fixtures of the annotation tests (makeHighlight and makeNote with their overrides).\<close>

definition makeHighlight :: "string \<Rightarrow> int \<Rightarrow> Rect list \<Rightarrow> string \<Rightarrow> Annotation" where
  "makeHighlight i p rs t =
     \<lparr> ann_id = i, ann_type = Highlight, ann_page = p, ann_rects = Some rs,
       ann_position = None, ann_color = Some ''#FFFF00'',
       ann_text = Some ''highlighted text'', ann_content = None, ann_comment = Some '''',
       ann_createdBy = ''alice@example.com'', ann_createdAt = ''2024-01-01T10:00:00Z'',
       ann_modifiedAt = t \<rparr>"

definition makeNote :: "string \<Rightarrow> int \<Rightarrow> real \<Rightarrow> string \<Rightarrow> Annotation" where
  "makeNote i p yy t =
     \<lparr> ann_id = i, ann_type = Note, ann_page = p, ann_rects = None,
       ann_position = Some \<lparr> pos_x = 100, pos_y = yy \<rparr>, ann_color = None,
       ann_text = None, ann_content = Some ''A note'', ann_comment = None,
       ann_createdBy = ''bob@example.com'', ann_createdAt = ''2024-01-01T11:00:00Z'',
       ann_modifiedAt = t \<rparr>"

definition rectAt :: "real \<Rightarrow> Rect" where
  "rectAt yy = \<lparr> rect_x1 = 0, rect_y1 = yy, rect_x2 = 100, rect_y2 = yy + 12 \<rparr>"

subsection \<open>Thrown values\<close>

text \<open>
  Every \<^verbatim>\<open>throw\<close> of the source and every rejection of a collaborator is an
  \<open>Inl e\<close> of the result type \<open>error + 'a\<close>. The constructor is the class of the thrown object, its
  argument the message; \<open>StatusError\<close> is an error object that carries an HTTP
  \<^verbatim>\<open>status\<close>, \<open>SqliteError\<close> a constraint violation raised by the database.
\<close>

datatype error =
    Error string
  | NotFoundError string
  | DuplicateError string
  | IntegrityError string
  | SyntaxError string
  | TypeError string
  | RangeError string
  | SqliteError string
  | StatusError int string

fun errorMessage :: "error \<Rightarrow> string" where
  "errorMessage (Error m) = m"
| "errorMessage (NotFoundError m) = m"
| "errorMessage (DuplicateError m) = m"
| "errorMessage (IntegrityError m) = m"
| "errorMessage (SyntaxError m) = m"
| "errorMessage (TypeError m) = m"
| "errorMessage (RangeError m) = m"
| "errorMessage (SqliteError m) = m"
| "errorMessage (StatusError c m) = m"

text \<open>\<^verbatim>\<open>(err as { status?: number }).status\<close>\<close>

fun errorStatus :: "error \<Rightarrow> int option" where
  "errorStatus (StatusError c m) = Some c"
| "errorStatus e = None"

definition bindE :: "error + 'a \<Rightarrow> ('a \<Rightarrow> error + 'b) \<Rightarrow> error + 'b" where
  "bindE m f = (case m of Inl e \<Rightarrow> Inl e | Inr x \<Rightarrow> f x)"

subsection \<open>Sidecar serialization (annotation.service.ts, buildSidecar and parseSidecar)\<close>

text \<open>
  The values \<^verbatim>\<open>JSON.parse\<close> returns. An object lists its members in order, each name
  once: \<^verbatim>\<open>JSON.parse\<close> keeps one value for a name that the text repeats.
\<close>

datatype json =
    JNull
  | JBool bool
  | JNum real
  | JStr string
  | JArr "json list"
  | JObj "(string \<times> json) list"




record AnnotationSidecar =
  sc_schemaVersion :: int
  sc_attachmentId :: string
  sc_lastModified :: string
  sc_version :: int
  sc_createdBy :: string
  sc_annotations :: "Annotation list"

text \<open>\<open>now\<close> is \<^verbatim>\<open>new Date().toISOString()\<close>.\<close>

definition buildSidecar ::
  "string \<Rightarrow> string \<Rightarrow> Annotation list \<Rightarrow> int \<Rightarrow> string \<Rightarrow> AnnotationSidecar" where
  "buildSidecar now attachmentId annotations version createdBy =
     \<lparr> sc_schemaVersion = 1, sc_attachmentId = attachmentId, sc_lastModified = now,
       sc_version = version, sc_createdBy = createdBy, sc_annotations = annotations \<rparr>"


subsection \<open>Entities and database rows (models/types.ts, db/schema.ts)\<close>

text \<open>
  Columns that hold JSON text (\<open>authors\<close>, \<open>tags\<close>, \<open>extra\<close>, \<open>annotations\<close>) are
  modelled by the value the text encodes: \<^verbatim>\<open>JSON.stringify\<close> followed by \<^verbatim>\<open>JSON.parse\<close>
  gives the value back. A nullable column is an \<^typ>\<open>'a option\<close>. \<open>ItemType\<close> is a union of
  string literals, checked at compile time only; rows and items hold the string.
\<close>

datatype LibraryType = Personal | Group

datatype UploadStatus = Pending | Uploading | Failed | Completed

datatype UploadType = Pdf | AnnotationUpload | Metadata

record Library =
  lib_id :: string
  lib_name :: string
  lib_type :: LibraryType
  lib_groupId :: "string option"
  lib_driveRootId :: "string option"
  lib_createdAt :: string
  lib_modifiedAt :: string

record Author =
  au_given :: string
  au_family :: string

record ItemRow =
  row_id :: string
  row_libraryId :: string
  row_itemType :: string
  row_title :: "string option"
  row_authors :: "Author list option"
  row_year :: "string option"
  row_journal :: "string option"
  row_volume :: "string option"
  row_issue :: "string option"
  row_pages :: "string option"
  row_doi :: "string option"
  row_isbn :: "string option"
  row_abstract :: "string option"
  row_tags :: "string list option"
  row_extra :: "(string \<times> json) list option"
  row_createdBy :: "string option"
  row_createdAt :: string
  row_modifiedAt :: string
  row_version :: int
  row_deleted :: int

record Item =
  item_id :: string
  item_libraryId :: string
  item_itemType :: string
  item_title :: "string option"
  item_authors :: "Author list"
  item_year :: "string option"
  item_journal :: "string option"
  item_volume :: "string option"
  item_issue :: "string option"
  item_pages :: "string option"
  item_doi :: "string option"
  item_isbn :: "string option"
  item_abstract :: "string option"
  item_tags :: "string list"
  item_extra :: "(string \<times> json) list"
  item_createdBy :: "string option"
  item_createdAt :: string
  item_modifiedAt :: string
  item_version :: int
  item_deleted :: bool

text \<open>
  \<^verbatim>\<open>Partial<Item>\<close>, the argument of updateItem: every member may be absent. \<^const>\<open>None\<close>
  is \<^verbatim>\<open>undefined\<close> and, for the members that may be \<^verbatim>\<open>null\<close>, also \<^verbatim>\<open>null\<close>: the code
  reads them with \<^verbatim>\<open>??\<close> only.
\<close>

record ItemPatch =
  upd_id :: "string option"
  upd_libraryId :: "string option"
  upd_itemType :: "string option"
  upd_title :: "string option"
  upd_authors :: "Author list option"
  upd_year :: "string option"
  upd_journal :: "string option"
  upd_volume :: "string option"
  upd_issue :: "string option"
  upd_pages :: "string option"
  upd_doi :: "string option"
  upd_isbn :: "string option"
  upd_abstract :: "string option"
  upd_tags :: "string list option"
  upd_extra :: "(string \<times> json) list option"
  upd_createdBy :: "string option"
  upd_createdAt :: "string option"
  upd_modifiedAt :: "string option"
  upd_version :: "int option"
  upd_deleted :: "bool option"

text \<open>The \<open>data\<close> argument of createItem.\<close>

record NewItem =
  new_title :: "string option"
  new_itemType :: "string option"
  new_authors :: "Author list option"
  new_year :: "string option"
  new_journal :: "string option"
  new_volume :: "string option"
  new_issue :: "string option"
  new_pages :: "string option"
  new_doi :: "string option"
  new_isbn :: "string option"
  new_abstract :: "string option"
  new_tags :: "string list option"

record Attachment =
  att_id :: string
  att_itemId :: string
  att_filename :: string
  att_mime :: string
  att_size :: "int option"
  att_checksum :: string
  att_driveFileId :: "string option"
  att_parentFolderId :: "string option"
  att_sharedDriveId :: "string option"
  att_driveWebLink :: "string option"
  att_driveRevision :: "string option"
  att_createdBy :: "string option"
  att_createdAt :: string
  att_modifiedAt :: string
  att_version :: int

record AnnotationSetRow =
  asr_id :: string
  asr_attachmentId :: string
  asr_annotations :: "Annotation list"
  asr_driveFileId :: "string option"
  asr_driveRevision :: "string option"
  asr_localVersion :: int
  asr_remoteVersion :: int
  asr_isDirty :: int
  asr_createdBy :: "string option"
  asr_createdAt :: string
  asr_modifiedAt :: string

record AnnotationSet =
  as_id :: string
  as_attachmentId :: string
  as_annotations :: "Annotation list"
  as_driveFileId :: "string option"
  as_driveRevision :: "string option"
  as_localVersion :: int
  as_remoteVersion :: int
  as_isDirty :: bool
  as_createdBy :: "string option"
  as_createdAt :: string
  as_modifiedAt :: string

text \<open>
  Retry counters start at the column defaults 0 and 5 and are only ever incremented;
  they are natural numbers. \<open>nextRetryAt\<close> holds the time in milliseconds since the
  epoch that the ISO string of the column denotes.
\<close>

record UploadQueueEntry =
  uq_id :: string
  uq_type :: UploadType
  uq_targetId :: string
  uq_localPath :: "string option"
  uq_status :: UploadStatus
  uq_retryCount :: nat
  uq_maxRetries :: nat
  uq_errorMsg :: "string option"
  uq_createdAt :: string
  uq_nextRetryAt :: "int option"

record SyncResult =
  pushed :: nat
  pulled :: nat
  conflicts :: nat
  errors :: nat

record DriveUploadOptions =
  opt_name :: string
  opt_mimeType :: string
  opt_parents :: "string list"
  opt_localPath :: "string option"
  opt_content :: "AnnotationSidecar option"

record DriveFileMetadata =
  df_id :: string
  df_name :: string
  df_mimeType :: string
  df_size :: int
  df_headRevisionId :: string
  df_webViewLink :: string
  df_parents :: "string list"

record SyncStateRow =
  ss_key :: string
  ss_value :: string
  ss_updatedAt :: string

text \<open>The tables of the local SQLite database, each in row order.\<close>

record DB =
  libraries :: "Library list"
  items :: "ItemRow list"
  attachments :: "Attachment list"
  annotation_sets :: "AnnotationSetRow list"
  upload_queue :: "UploadQueueEntry list"
  sync_state :: "SyncStateRow list"

subsection \<open>Collaborators\<close>

text \<open>
  The Drive service, the cache service and the backend are injected interfaces. Each
  method is a function from its arguments to what the call resolves to or rejects
  with. The content of a JSON file is the sidecar that \<^verbatim>\<open>JSON.stringify\<close> serialises.
  \<open>ensureFolder\<close> takes the parent as an option because addPdfToGroup passes
  \<^verbatim>\<open>library.driveRootId!\<close>, which may be \<^verbatim>\<open>null\<close> at run time.
\<close>

record IDriveService =
  ensureFolder :: "string option \<Rightarrow> string \<Rightarrow> error + string"
  uploadResumable :: "DriveUploadOptions \<Rightarrow> error + DriveFileMetadata"
  downloadJSON :: "string \<Rightarrow> error + AnnotationSidecar"
  getFileMetadata :: "string \<Rightarrow> error + DriveFileMetadata"
  createFile :: "DriveUploadOptions \<Rightarrow> error + DriveFileMetadata"
  updateFile :: "string \<Rightarrow> AnnotationSidecar \<Rightarrow> string \<Rightarrow> error + DriveFileMetadata"

record ICacheService =
  getPdfPath :: "string \<Rightarrow> string option"
  storePdf :: "string \<Rightarrow> string \<Rightarrow> error + string"

record IBackendApi =
  getChanges :: "string \<Rightarrow> error + ItemRow list"
  pushItem :: "ItemRow \<Rightarrow> error + unit"

text \<open>The files that the calls made so far have written to Drive, oldest first.\<close>

datatype DriveWrite =
    UploadResumable DriveUploadOptions
  | CreateFile DriveUploadOptions
  | UpdateFile string AnnotationSidecar string

record World =
  w_db :: DB
  w_drive :: "DriveWrite list"

text \<open>
  What a service reads from its surroundings: the injected collaborators and user,
  the clock (\<open>env_sqlNow\<close> is \<^verbatim>\<open>datetime('now')\<close> of SQLite, a string of the form
  \<^verbatim>\<open>YYYY-MM-DD HH:MM:SS\<close>; \<open>env_nowISO\<close> is \<^verbatim>\<open>new Date().toISOString()\<close>, of the form
  \<^verbatim>\<open>YYYY-MM-DDTHH:MM:SS.sssZ\<close>; \<open>env_dateNow u\<close> is \<^verbatim>\<open>Date.now()\<close> read while the
  failure of queue entry \<open>u\<close> is recorded), the \<open>n\<close>-th result of \<^verbatim>\<open>uuid()\<close> within one
  call, the file system (\<^verbatim>\<open>fs.existsSync\<close>, \<^verbatim>\<open>fs.statSync(p).size\<close>, \<^verbatim>\<open>path.basename\<close>,
  computeSHA256) and buildDriveFileName of drive.service.ts, the name an uploaded
  PDF gets, on which nothing below depends.
\<close>

record Env =
  env_drive :: IDriveService
  env_cache :: ICacheService
  env_backend :: IBackendApi
  env_currentUserId :: string
  env_sqlNow :: string
  env_nowISO :: string
  env_dateNow :: "UploadQueueEntry \<Rightarrow> int"
  env_uuid :: "nat \<Rightarrow> string"
  env_existsSync :: "string \<Rightarrow> bool"
  env_statSize :: "string \<Rightarrow> error + int"
  env_basename :: "string \<Rightarrow> string"
  env_computeSHA256 :: "string \<Rightarrow> error + string"
  env_buildDriveFileName :: "string \<Rightarrow> string \<Rightarrow> string"

subsection \<open>SQL statements\<close>

text \<open>
  \<^verbatim>\<open>.get()\<close> returns the first row that matches, \<^verbatim>\<open>.all()\<close> all of them; an UPDATE
  rewrites every row that matches. An INSERT fails when the primary key is taken or,
  with \<^verbatim>\<open>foreign_keys = ON\<close> as openDatabase sets it, when the referenced row is missing.
\<close>

definition insertItem :: "DB \<Rightarrow> ItemRow \<Rightarrow> error + DB" where
  "insertItem db row =
     (if row_id row \<in> row_id ` set (items db)
      then Inl (SqliteError ''UNIQUE constraint failed: items.id'')
      else if row_libraryId row \<notin> lib_id ` set (libraries db)
      then Inl (SqliteError ''FOREIGN KEY constraint failed'')
      else Inr (db\<lparr>items := items db @ [row]\<rparr>))"

definition insertAttachment :: "DB \<Rightarrow> Attachment \<Rightarrow> error + DB" where
  "insertAttachment db a =
     (if att_id a \<in> att_id ` set (attachments db)
      then Inl (SqliteError ''UNIQUE constraint failed: attachments.id'')
      else if att_itemId a \<notin> row_id ` set (items db)
      then Inl (SqliteError ''FOREIGN KEY constraint failed'')
      else Inr (db\<lparr>attachments := attachments db @ [a]\<rparr>))"

definition insertAnnotationSet :: "DB \<Rightarrow> AnnotationSetRow \<Rightarrow> error + DB" where
  "insertAnnotationSet db r =
     (if asr_id r \<in> asr_id ` set (annotation_sets db)
      then Inl (SqliteError ''UNIQUE constraint failed: annotation_sets.id'')
      else if asr_attachmentId r \<notin> att_id ` set (attachments db)
      then Inl (SqliteError ''FOREIGN KEY constraint failed'')
      else Inr (db\<lparr>annotation_sets := annotation_sets db @ [r]\<rparr>))"

definition insertUploadQueue :: "DB \<Rightarrow> UploadQueueEntry \<Rightarrow> error + DB" where
  "insertUploadQueue db u =
     (if uq_id u \<in> uq_id ` set (upload_queue db)
      then Inl (SqliteError ''UNIQUE constraint failed: upload_queue.id'')
      else Inr (db\<lparr>upload_queue := upload_queue db @ [u]\<rparr>))"

text \<open>\<^verbatim>\<open>a ?? b\<close> on a nullable member.\<close>

definition nullish :: "'a option \<Rightarrow> 'a option \<Rightarrow> 'a option" where
  "nullish a b = (case a of Some v \<Rightarrow> Some v | None \<Rightarrow> b)"

text \<open>
  A nullable string in a condition (\<^verbatim>\<open>if (s)\<close>, \<^verbatim>\<open>!s\<close>): \<^verbatim>\<open>null\<close> and the empty string
  are falsy. \<open>truthy s\<close> is \<open>Some v\<close> for a string \<open>v\<close> that passes the test.
\<close>

definition truthy :: "string option \<Rightarrow> string option" where
  "truthy s = (case s of Some v \<Rightarrow> (if v = [] then None else Some v) | None \<Rightarrow> None)"

subsection \<open>Library service (library.service.ts): items\<close>

definition rowToItem :: "ItemRow \<Rightarrow> Item" where
  "rowToItem row =
     \<lparr> item_id = row_id row, item_libraryId = row_libraryId row,
       item_itemType = row_itemType row, item_title = row_title row,
       item_authors = (case row_authors row of Some a \<Rightarrow> a | None \<Rightarrow> []),
       item_year = row_year row, item_journal = row_journal row,
       item_volume = row_volume row, item_issue = row_issue row,
       item_pages = row_pages row, item_doi = row_doi row, item_isbn = row_isbn row,
       item_abstract = row_abstract row,
       item_tags = (case row_tags row of Some t \<Rightarrow> t | None \<Rightarrow> []),
       item_extra = (case row_extra row of Some e \<Rightarrow> e | None \<Rightarrow> []),
       item_createdBy = row_createdBy row, item_createdAt = row_createdAt row,
       item_modifiedAt = row_modifiedAt row, item_version = row_version row,
       item_deleted = (row_deleted row = 1) \<rparr>"

definition getItem :: "DB \<Rightarrow> string \<Rightarrow> Item option" where
  "getItem db i = map_option rowToItem (find (\<lambda>r. row_id r = i) (items db))"

definition getLibrary :: "DB \<Rightarrow> string \<Rightarrow> Library option" where
  "getLibrary db i = find (\<lambda>l. lib_id l = i) (libraries db)"

definition getAttachment :: "DB \<Rightarrow> string \<Rightarrow> Attachment option" where
  "getAttachment db i = find (\<lambda>a. att_id a = i) (attachments db)"


definition updateItem :: "Env \<Rightarrow> DB \<Rightarrow> string \<Rightarrow> ItemPatch \<Rightarrow> error + (DB \<times> Item option)" where
  "updateItem env db i data =
     (case getItem db i of
        None \<Rightarrow> Inl (NotFoundError (''Item not found: '' @ i))
      | Some existing \<Rightarrow>
          (let db' = db\<lparr>items := map (\<lambda>r. if row_id r = i then
                 r\<lparr> row_title := nullish (upd_title data) (item_title existing),
                    row_authors := Some (case upd_authors data of
                                           Some a \<Rightarrow> a | None \<Rightarrow> item_authors existing),
                    row_year := nullish (upd_year data) (item_year existing),
                    row_journal := nullish (upd_journal data) (item_journal existing),
                    row_volume := nullish (upd_volume data) (item_volume existing),
                    row_issue := nullish (upd_issue data) (item_issue existing),
                    row_pages := nullish (upd_pages data) (item_pages existing),
                    row_doi := nullish (upd_doi data) (item_doi existing),
                    row_isbn := nullish (upd_isbn data) (item_isbn existing),
                    row_abstract := nullish (upd_abstract data) (item_abstract existing),
                    row_tags := Some (case upd_tags data of
                                        Some t \<Rightarrow> t | None \<Rightarrow> item_tags existing),
                    row_version := row_version r + 1,
                    row_modifiedAt := env_sqlNow env \<rparr>
                 else r) (items db)\<rparr>
           in Inr (db', getItem db' i)))"

definition deleteItem :: "Env \<Rightarrow> DB \<Rightarrow> string \<Rightarrow> DB" where
  "deleteItem env db i =
     db\<lparr>items := map (\<lambda>r. if row_id r = i then
            r\<lparr> row_deleted := 1, row_modifiedAt := env_sqlNow env,
               row_version := row_version r + 1 \<rparr>
          else r) (items db)\<rparr>"

subsection \<open>Library service: adding a PDF to a group library\<close>

text \<open>\<^verbatim>\<open>filename.replace(/\.pdf$/i, '')\<close>\<close>

definition stripPdfExt :: "string \<Rightarrow> string" where
  "stripPdfExt f =
     (let n = length f in
      if 4 \<le> n \<and> f ! (n - 4) = CHR ''.''
         \<and> f ! (n - 3) \<in> {CHR ''p'', CHR ''P''}
         \<and> f ! (n - 2) \<in> {CHR ''d'', CHR ''D''}
         \<and> f ! (n - 1) \<in> {CHR ''f'', CHR ''F''}
      then take (n - 4) f else f)"

text \<open>
  The duplicate check: the first attachment with this checksum that joins an item of
  this library with \<open>deleted = 0\<close>.
\<close>

definition findDuplicate :: "DB \<Rightarrow> string \<Rightarrow> string \<Rightarrow> Attachment option" where
  "findDuplicate db checksum libraryId =
     find (\<lambda>a. att_checksum a = checksum \<and>
                (\<exists>i \<in> set (items db). row_id i = att_itemId a \<and>
                   row_libraryId i = libraryId \<and> row_deleted i = 0))
          (attachments db)"

definition pdfItemRow :: "Env \<Rightarrow> string \<Rightarrow> string \<Rightarrow> string \<Rightarrow> ItemRow" where
  "pdfItemRow env itemId libraryId filename =
     \<lparr> row_id = itemId, row_libraryId = libraryId, row_itemType = ''journalArticle'',
       row_title = Some (stripPdfExt filename), row_authors = None, row_year = None,
       row_journal = None, row_volume = None, row_issue = None, row_pages = None,
       row_doi = None, row_isbn = None, row_abstract = None, row_tags = None,
       row_extra = None, row_createdBy = Some (env_currentUserId env),
       row_createdAt = env_sqlNow env, row_modifiedAt = env_sqlNow env,
       row_version = 1, row_deleted = 0 \<rparr>"

definition newAnnotationSetRow :: "Env \<Rightarrow> string \<Rightarrow> string \<Rightarrow> AnnotationSetRow" where
  "newAnnotationSetRow env i attachmentId =
     \<lparr> asr_id = i, asr_attachmentId = attachmentId, asr_annotations = [],
       asr_driveFileId = None, asr_driveRevision = None, asr_localVersion = 1,
       asr_remoteVersion = 0, asr_isDirty = 0,
       asr_createdBy = Some (env_currentUserId env),
       asr_createdAt = env_sqlNow env, asr_modifiedAt = env_sqlNow env \<rparr>"

definition newQueueEntry ::
  "Env \<Rightarrow> string \<Rightarrow> UploadType \<Rightarrow> string \<Rightarrow> string option \<Rightarrow> UploadQueueEntry" where
  "newQueueEntry env i t targetId localPath =
     \<lparr> uq_id = i, uq_type = t, uq_targetId = targetId, uq_localPath = localPath,
       uq_status = Pending, uq_retryCount = 0, uq_maxRetries = 5, uq_errorMsg = None,
       uq_createdAt = env_sqlNow env, uq_nextRetryAt = None \<rparr>"

definition pdfUploadOptions :: "Env \<Rightarrow> string \<Rightarrow> string \<Rightarrow> string \<Rightarrow> string \<Rightarrow> DriveUploadOptions" where
  "pdfUploadOptions env checksum filename pdfsFolderId localPath =
     \<lparr> opt_name = env_buildDriveFileName env checksum filename,
       opt_mimeType = ''application/pdf'', opt_parents = [pdfsFolderId],
       opt_localPath = Some localPath, opt_content = None \<rparr>"

text \<open>Step 5, the body of the \<^verbatim>\<open>try\<close>: the options sent and the file Drive reports.\<close>

definition uploadPdf ::
  "Env \<Rightarrow> Library \<Rightarrow> string \<Rightarrow> string \<Rightarrow> string \<Rightarrow> error + (DriveUploadOptions \<times> DriveFileMetadata)" where
  "uploadPdf env library checksum filename localPdfPath =
     bindE (ensureFolder (env_drive env) (lib_driveRootId library) ''pdfs'') (\<lambda>pdfsFolderId.
     let opts = pdfUploadOptions env checksum filename pdfsFolderId localPdfPath in
     bindE (uploadResumable (env_drive env) opts) (\<lambda>driveFile. Inr (opts, driveFile)))"

text \<open>The transaction of the \<^verbatim>\<open>catch\<close> branch: the upload failed and is queued.\<close>

definition insertQueuedPdf ::
  "Env \<Rightarrow> DB \<Rightarrow> Library \<Rightarrow> string \<Rightarrow> string \<Rightarrow> int \<Rightarrow> string \<Rightarrow> error + DB" where
  "insertQueuedPdf env db library checksum filename fileSize localPdfPath =
     (let queueId = env_uuid env 0; itemId = env_uuid env 1; attachmentId = env_uuid env 2 in
      bindE (insertItem db (pdfItemRow env itemId (lib_id library) filename)) (\<lambda>db1.
      bindE (insertAttachment db1
               \<lparr> att_id = attachmentId, att_itemId = itemId, att_filename = filename,
                 att_mime = ''application/pdf'', att_size = Some fileSize,
                 att_checksum = checksum, att_driveFileId = None,
                 att_parentFolderId = None, att_sharedDriveId = None,
                 att_driveWebLink = None, att_driveRevision = None,
                 att_createdBy = Some (env_currentUserId env),
                 att_createdAt = env_sqlNow env, att_modifiedAt = env_sqlNow env,
                 att_version = 1 \<rparr>) (\<lambda>db2.
      bindE (insertAnnotationSet db2 (newAnnotationSetRow env (env_uuid env 3) attachmentId)) (\<lambda>db3.
      insertUploadQueue db3 (newQueueEntry env queueId Pdf attachmentId (Some localPdfPath))))))"

text \<open>
  The transaction of step 6. \<^verbatim>\<open>driveFile.parents[0]\<close> of an empty array is
  \<^verbatim>\<open>undefined\<close>, stored as NULL.
\<close>

definition insertUploadedPdf ::
  "Env \<Rightarrow> DB \<Rightarrow> Library \<Rightarrow> string \<Rightarrow> string \<Rightarrow> int \<Rightarrow> DriveFileMetadata \<Rightarrow> error + DB" where
  "insertUploadedPdf env db library checksum filename fileSize driveFile =
     (let itemId = env_uuid env 0; attachmentId = env_uuid env 1 in
      bindE (insertItem db (pdfItemRow env itemId (lib_id library) filename)) (\<lambda>db1.
      bindE (insertAttachment db1
               \<lparr> att_id = attachmentId, att_itemId = itemId, att_filename = filename,
                 att_mime = ''application/pdf'', att_size = Some fileSize,
                 att_checksum = checksum, att_driveFileId = Some (df_id driveFile),
                 att_parentFolderId = (case df_parents driveFile of
                                         [] \<Rightarrow> None | p # ps \<Rightarrow> Some p),
                 att_sharedDriveId = lib_driveRootId library,
                 att_driveWebLink = Some (df_webViewLink driveFile),
                 att_driveRevision = Some (df_headRevisionId driveFile),
                 att_createdBy = Some (env_currentUserId env),
                 att_createdAt = env_sqlNow env, att_modifiedAt = env_sqlNow env,
                 att_version = 1 \<rparr>) (\<lambda>db2.
      insertAnnotationSet db2 (newAnnotationSetRow env (env_uuid env 2) attachmentId))))"

text \<open>
  The result pairs the world the call leaves behind with what the promise settles
  to: an exception after the transaction (the cache copy) leaves the inserted rows.
\<close>

definition addPdfToGroup :: "Env \<Rightarrow> World \<Rightarrow> string \<Rightarrow> string \<Rightarrow> World \<times> (error + Item option)" where
  "addPdfToGroup env w groupId localPdfPath =
     (if \<not> env_existsSync env localPdfPath
      then (w, Inl (NotFoundError (''File not found: '' @ localPdfPath)))
      else case env_computeSHA256 env localPdfPath of
        Inl e \<Rightarrow> (w, Inl e)
      | Inr checksum \<Rightarrow>
      (case env_statSize env localPdfPath of
        Inl e \<Rightarrow> (w, Inl e)
      | Inr fileSize \<Rightarrow>
      (let filename = env_basename env localPdfPath in
       case find (\<lambda>l. lib_groupId l = Some groupId) (libraries (w_db w)) of
         None \<Rightarrow> (w, Inl (NotFoundError (''Group library not found for group: '' @ groupId)))
       | Some library \<Rightarrow>
       (case findDuplicate (w_db w) checksum (lib_id library) of
          Some existing \<Rightarrow>
            (w, Inl (DuplicateError
                       (''PDF already exists in this group library: '' @ att_filename existing)))
        | None \<Rightarrow>
        (case uploadPdf env library checksum filename localPdfPath of
           Inl err \<Rightarrow>
             (case insertQueuedPdf env (w_db w) library checksum filename fileSize localPdfPath of
                Inl e \<Rightarrow> (w, Inl e)
              | Inr db' \<Rightarrow>
                  (case storePdf (env_cache env) checksum localPdfPath of
                     Inl e \<Rightarrow> (w\<lparr>w_db := db'\<rparr>, Inl e)
                   | Inr dest \<Rightarrow> (w\<lparr>w_db := db'\<rparr>, Inr (getItem db' (env_uuid env 1)))))
         | Inr (opts, driveFile) \<Rightarrow>
             (let w1 = w\<lparr>w_drive := w_drive w @ [UploadResumable opts]\<rparr> in
              case insertUploadedPdf env (w_db w) library checksum filename fileSize driveFile of
                Inl e \<Rightarrow> (w1, Inl e)
              | Inr db' \<Rightarrow>
                  (case storePdf (env_cache env) checksum localPdfPath of
                     Inl e \<Rightarrow> (w1\<lparr>w_db := db'\<rparr>, Inl e)
                   | Inr dest \<Rightarrow> (w1\<lparr>w_db := db'\<rparr>, Inr (getItem db' (env_uuid env 0))))))))))"

subsection \<open>Library service: saving annotations\<close>

definition rowToAnnotationSet :: "AnnotationSetRow \<Rightarrow> AnnotationSet" where
  "rowToAnnotationSet row =
     \<lparr> as_id = asr_id row, as_attachmentId = asr_attachmentId row,
       as_annotations = asr_annotations row, as_driveFileId = asr_driveFileId row,
       as_driveRevision = asr_driveRevision row, as_localVersion = asr_localVersion row,
       as_remoteVersion = asr_remoteVersion row, as_isDirty = (asr_isDirty row = 1),
       as_createdBy = asr_createdBy row, as_createdAt = asr_createdAt row,
       as_modifiedAt = asr_modifiedAt row \<rparr>"

text \<open>\<^verbatim>\<open>UPDATE annotation_sets SET ... WHERE id = ?\<close>\<close>

definition updateAnnotationSet ::
  "string \<Rightarrow> (AnnotationSetRow \<Rightarrow> AnnotationSetRow) \<Rightarrow> DB \<Rightarrow> DB" where
  "updateAnnotationSet i f db =
     db\<lparr>annotation_sets := map (\<lambda>r. if asr_id r = i then f r else r) (annotation_sets db)\<rparr>"

text \<open>
  The sidecar that saveAnnotations sends when the set already has a Drive file: on a
  revision mismatch the remote sidecar is downloaded and merged.
\<close>

definition reconcileSidecar ::
  "Env \<Rightarrow> AnnotationSet \<Rightarrow> string \<Rightarrow> AnnotationSidecar \<Rightarrow> error + AnnotationSidecar" where
  "reconcileSidecar env annotationSet fileId sidecarData =
     bindE (getFileMetadata (env_drive env) fileId) (\<lambda>remoteMeta.
       if Some (df_headRevisionId remoteMeta) \<noteq> as_driveRevision annotationSet
       then bindE (downloadJSON (env_drive env) fileId) (\<lambda>remoteData.
              Inr (sidecarData\<lparr>
                sc_annotations :=
                  mergeAnnotations (sc_annotations sidecarData) (sc_annotations remoteData),
                sc_version := max (sc_version sidecarData) (sc_version remoteData) + 1 \<rparr>))
       else Inr sidecarData)"

text \<open>
  Step 2, the body of the \<^verbatim>\<open>try\<close>, run on the world \<open>w\<close> that step 1 left. Every call
  that can throw comes before the first write of the block.
\<close>

definition uploadAnnotations ::
  "Env \<Rightarrow> World \<Rightarrow> AnnotationSet \<Rightarrow> string \<Rightarrow> Annotation list \<Rightarrow> error + World" where
  "uploadAnnotations env w annotationSet attachmentId annotations =
     (let newVersion = as_localVersion annotationSet + 1 in
      case getAttachment (w_db w) attachmentId of
        None \<Rightarrow> Inl (NotFoundError ''Attachment not found'')
      | Some attachment \<Rightarrow>
      (case getItem (w_db w) (att_itemId attachment) of
        None \<Rightarrow> Inl (NotFoundError ''Item not found'')
      | Some item \<Rightarrow>
      (case getLibrary (w_db w) (item_libraryId item) of
        None \<Rightarrow> Inr w
      | Some library \<Rightarrow>
      (case truthy (lib_driveRootId library) of
        None \<Rightarrow> Inr w
      | Some driveRootId \<Rightarrow>
       (let sidecarData =
              \<lparr> sc_schemaVersion = 1, sc_attachmentId = attachmentId,
                sc_lastModified = env_nowISO env, sc_version = newVersion,
                sc_createdBy = env_currentUserId env, sc_annotations = annotations \<rparr> in
        bindE (ensureFolder (env_drive env) (Some driveRootId) ''annotations'')
          (\<lambda>annotationsFolderId.
        case truthy (as_driveFileId annotationSet) of
          Some fileId \<Rightarrow>
            bindE (reconcileSidecar env annotationSet fileId sidecarData) (\<lambda>toSend.
            bindE (updateFile (env_drive env) fileId toSend ''application/json'') (\<lambda>updated.
              Inr (w\<lparr> w_db := updateAnnotationSet (as_id annotationSet)
                           (\<lambda>r. r\<lparr> asr_driveRevision := Some (df_headRevisionId updated),
                                   asr_remoteVersion := sc_version toSend,
                                   asr_isDirty := 0,
                                   asr_localVersion := sc_version toSend \<rparr>) (w_db w),
                      w_drive := w_drive w @ [UpdateFile fileId toSend ''application/json''] \<rparr>)))
        | None \<Rightarrow>
            (let opts = \<lparr> opt_name = attachmentId @ ''.json'',
                          opt_mimeType = ''application/json'',
                          opt_parents = [annotationsFolderId], opt_localPath = None,
                          opt_content = Some sidecarData \<rparr> in
             bindE (createFile (env_drive env) opts) (\<lambda>driveFile.
               Inr (w\<lparr> w_db := updateAnnotationSet (as_id annotationSet)
                            (\<lambda>r. r\<lparr> asr_driveFileId := Some (df_id driveFile),
                                    asr_driveRevision := Some (df_headRevisionId driveFile),
                                    asr_remoteVersion := newVersion,
                                    asr_isDirty := 0 \<rparr>) (w_db w),
                       w_drive := w_drive w @ [CreateFile opts] \<rparr>)))))))))"

definition saveAnnotations ::
  "Env \<Rightarrow> World \<Rightarrow> string \<Rightarrow> Annotation list \<Rightarrow> World \<times> (error + unit)" where
  "saveAnnotations env w attachmentId annotations =
     (case find (\<lambda>r. asr_attachmentId r = attachmentId) (annotation_sets (w_db w)) of
        None \<Rightarrow> (w, Inl (NotFoundError ''Annotation set not found''))
      | Some annRow \<Rightarrow>
          (let annotationSet = rowToAnnotationSet annRow;
               newVersion = as_localVersion annotationSet + 1;
               w1 = w\<lparr> w_db := updateAnnotationSet (as_id annotationSet)
                          (\<lambda>r. r\<lparr> asr_annotations := annotations,
                                  asr_localVersion := newVersion, asr_isDirty := 1,
                                  asr_modifiedAt := env_sqlNow env \<rparr>) (w_db w) \<rparr>
           in case uploadAnnotations env w1 annotationSet attachmentId annotations of
                Inr w2 \<Rightarrow> (w2, Inr ())
              | Inl err \<Rightarrow>
                  (case insertUploadQueue (w_db w1)
                          (newQueueEntry env (env_uuid env 0) AnnotationUpload
                             (as_id annotationSet) None) of
                     Inl e \<Rightarrow> (w1, Inl e)
                   | Inr db' \<Rightarrow> (w1\<lparr>w_db := db'\<rparr>, Inr ()))))"

subsection \<open>Sync service (sync.service.ts): queue handlers\<close>

text \<open>
  A handler either returns, leaving a new world, or throws. The handlers of the
  source make every call that can throw before their first write, so a handler that
  throws leaves the world as it found it.
\<close>

type_synonym handler = "UploadQueueEntry \<Rightarrow> World \<Rightarrow> error + World"

definition processPdfUpload :: "Env \<Rightarrow> handler" where
  "processPdfUpload env upload w =
     (case find (\<lambda>a. att_id a = uq_targetId upload) (attachments (w_db w)) of
        None \<Rightarrow> Inr w
      | Some attachment \<Rightarrow>
      (case truthy (att_driveFileId attachment) of
        Some alreadyUploaded \<Rightarrow> Inr w
      | None \<Rightarrow>
      (case find (\<lambda>r. row_id r = att_itemId attachment) (items (w_db w)) of
        None \<Rightarrow> Inr w
      | Some item \<Rightarrow>
      (case find (\<lambda>l. lib_id l = row_libraryId item) (libraries (w_db w)) of
        None \<Rightarrow> Inr w
      | Some library \<Rightarrow>
      (case truthy (lib_driveRootId library) of
        None \<Rightarrow> Inr w
      | Some driveRootId \<Rightarrow>
      (case truthy (nullish (uq_localPath upload)
                      (getPdfPath (env_cache env) (att_checksum attachment))) of
        None \<Rightarrow> Inr w
      | Some localPath \<Rightarrow>
        bindE (ensureFolder (env_drive env) (Some driveRootId) ''pdfs'') (\<lambda>pdfsFolderId.
        let opts = pdfUploadOptions env (att_checksum attachment) (att_filename attachment)
                     pdfsFolderId localPath in
        bindE (uploadResumable (env_drive env) opts) (\<lambda>driveFile.
          Inr (w\<lparr> w_db := (w_db w)\<lparr>attachments :=
                       map (\<lambda>a. if att_id a = att_id attachment then
                                   a\<lparr> att_driveFileId := Some (df_id driveFile),
                                      att_parentFolderId := Some pdfsFolderId,
                                      att_sharedDriveId := Some driveRootId,
                                      att_driveWebLink := Some (df_webViewLink driveFile),
                                      att_driveRevision := Some (df_headRevisionId driveFile) \<rparr>
                                 else a) (attachments (w_db w))\<rparr>,
                  w_drive := w_drive w @ [UploadResumable opts] \<rparr>)))))))))"

definition processAnnotationUpload :: "Env \<Rightarrow> handler" where
  "processAnnotationUpload env upload w =
     (case find (\<lambda>r. asr_id r = uq_targetId upload) (annotation_sets (w_db w)) of
        None \<Rightarrow> Inr w
      | Some annRow \<Rightarrow>
      (let annotationSet = rowToAnnotationSet annRow in
       case find (\<lambda>a. att_id a = as_attachmentId annotationSet) (attachments (w_db w)) of
        None \<Rightarrow> Inr w
      | Some attachment \<Rightarrow>
      (case find (\<lambda>r. row_id r = att_itemId attachment) (items (w_db w)) of
        None \<Rightarrow> Inr w
      | Some item \<Rightarrow>
      (case find (\<lambda>l. lib_id l = row_libraryId item) (libraries (w_db w)) of
        None \<Rightarrow> Inr w
      | Some library \<Rightarrow>
      (case truthy (lib_driveRootId library) of
        None \<Rightarrow> Inr w
      | Some driveRootId \<Rightarrow>
        bindE (ensureFolder (env_drive env) (Some driveRootId) ''annotations'')
          (\<lambda>annotationsFolderId.
        let sidecar = buildSidecar (env_nowISO env) (as_attachmentId annotationSet)
                        (as_annotations annotationSet) (as_localVersion annotationSet)
                        (env_currentUserId env) in
        case truthy (as_driveFileId annotationSet) of
          Some fileId \<Rightarrow>
            bindE (updateFile (env_drive env) fileId sidecar ''application/json'') (\<lambda>updated.
              Inr (w\<lparr> w_db := updateAnnotationSet (as_id annotationSet)
                           (\<lambda>r. r\<lparr> asr_driveRevision := Some (df_headRevisionId updated),
                                   asr_remoteVersion := as_localVersion annotationSet,
                                   asr_isDirty := 0 \<rparr>) (w_db w),
                      w_drive := w_drive w @ [UpdateFile fileId sidecar ''application/json''] \<rparr>))
        | None \<Rightarrow>
            (let opts = \<lparr> opt_name = as_attachmentId annotationSet @ ''.json'',
                          opt_mimeType = ''application/json'',
                          opt_parents = [annotationsFolderId], opt_localPath = None,
                          opt_content = Some sidecar \<rparr> in
             bindE (createFile (env_drive env) opts) (\<lambda>driveFile.
               Inr (w\<lparr> w_db := updateAnnotationSet (as_id annotationSet)
                            (\<lambda>r. r\<lparr> asr_driveFileId := Some (df_id driveFile),
                                    asr_driveRevision := Some (df_headRevisionId driveFile),
                                    asr_remoteVersion := as_localVersion annotationSet,
                                    asr_isDirty := 0 \<rparr>) (w_db w),
                       w_drive := w_drive w @ [CreateFile opts] \<rparr>)))))))))"

subsection \<open>Sync service: draining the upload queue\<close>

text \<open>\<^verbatim>\<open>UPDATE upload_queue SET ... WHERE id = ?\<close>\<close>

definition updateQueue :: "string \<Rightarrow> (UploadQueueEntry \<Rightarrow> UploadQueueEntry) \<Rightarrow> World \<Rightarrow> World" where
  "updateQueue i f w =
     w\<lparr>w_db := (w_db w)\<lparr>upload_queue :=
          map (\<lambda>u. if uq_id u = i then f u else u) (upload_queue (w_db w))\<rparr>\<rparr>"

text \<open>
  \<^verbatim>\<open>new Date(t).toISOString()\<close>: a time value beyond 8.64e15 milliseconds from the epoch
  is an invalid date, for which toISOString throws a RangeError.
\<close>

definition toISOString :: "int \<Rightarrow> error + int" where
  "toISOString t =
     (if \<bar>t\<bar> \<le> 8640000000000000 then Inr t else Inl (RangeError ''Invalid time value''))"

text \<open>The branch of the loop body taken by an entry of each type.\<close>

definition dispatch :: "handler \<Rightarrow> handler \<Rightarrow> handler" where
  "dispatch pdfH annH upload w =
     (if uq_type upload = Pdf then pdfH upload w
      else if uq_type upload = AnnotationUpload then annH upload w
      else Inr w)"

text \<open>
  The loop over the rows selected at the start. The two private methods it calls are
  parameters \<open>pdfH\<close> and \<open>annH\<close>; syncLoop passes \<^const>\<open>processPdfUpload\<close> and
  \<^const>\<open>processAnnotationUpload\<close>. The third component of the result is the exception
  that left the loop, if one did: only toISOString inside the \<^verbatim>\<open>catch\<close> block can
  throw there.
\<close>

fun drainLoop ::
  "handler \<Rightarrow> handler \<Rightarrow> (UploadQueueEntry \<Rightarrow> int) \<Rightarrow> UploadQueueEntry list \<Rightarrow>
   World \<Rightarrow> SyncResult \<Rightarrow> World \<times> SyncResult \<times> error option" where
  "drainLoop pdfH annH dateNow [] w res = (w, res, None)"
| "drainLoop pdfH annH dateNow (upload # rest) w res =
     (case dispatch pdfH annH upload w of
        Inr w' \<Rightarrow>
          drainLoop pdfH annH dateNow rest
            (updateQueue (uq_id upload) (\<lambda>u. u\<lparr>uq_status := Completed\<rparr>) w') res
      | Inl err \<Rightarrow>
          (let newRetry = uq_retryCount upload + 1;
               errMsg = errorMessage err in
           if newRetry \<ge> uq_maxRetries upload then
             drainLoop pdfH annH dateNow rest
               (updateQueue (uq_id upload)
                  (\<lambda>u. u\<lparr> uq_status := Failed, uq_errorMsg := Some errMsg,
                          uq_retryCount := newRetry \<rparr>) w)
               (res\<lparr>errors := errors res + 1\<rparr>)
           else
             (case toISOString (dateNow upload + 2 ^ newRetry * 1000) of
                Inl e \<Rightarrow> (w, res, Some e)
              | Inr nextRetry \<Rightarrow>
                  drainLoop pdfH annH dateNow rest
                    (updateQueue (uq_id upload)
                       (\<lambda>u. u\<lparr> uq_retryCount := newRetry, uq_nextRetryAt := Some nextRetry,
                               uq_errorMsg := Some errMsg \<rparr>) w)
                    (res\<lparr>errors := errors res + 1\<rparr>))))"

text \<open>
  \<^verbatim>\<open>SELECT * FROM upload_queue WHERE status = 'pending' ORDER BY createdAt\<close>:
  rows with equal \<open>createdAt\<close> stay in row order.
\<close>

definition pendingUploads :: "World \<Rightarrow> UploadQueueEntry list" where
  "pendingUploads w =
     sort_key uq_createdAt (filter (\<lambda>u. uq_status u = Pending) (upload_queue (w_db w)))"

definition processUploadQueue ::
  "handler \<Rightarrow> handler \<Rightarrow> (UploadQueueEntry \<Rightarrow> int) \<Rightarrow> World \<Rightarrow> SyncResult \<Rightarrow>
   World \<times> SyncResult \<times> error option" where
  "processUploadQueue pdfH annH dateNow w res =
     drainLoop pdfH annH dateNow (pendingUploads w) w res"

subsection \<open>Sync service: the sync loop\<close>

text \<open>
  The body of the pull loop for one remote item. The INSERT does not name the column
  \<open>deleted\<close>, which takes its default 0.
\<close>

definition pullItem :: "string \<Rightarrow> ItemRow \<Rightarrow> DB \<Rightarrow> SyncResult \<Rightarrow> error + (DB \<times> SyncResult)" where
  "pullItem lastSync remote db res =
     (case find (\<lambda>r. row_id r = row_id remote) (items db) of
        None \<Rightarrow>
          bindE (insertItem db (remote\<lparr>row_deleted := 0\<rparr>))
            (\<lambda>db'. Inr (db', res\<lparr>pulled := pulled res + 1\<rparr>))
      | Some local \<Rightarrow>
          (if row_version remote > row_version local then
             (let localDirty = (row_modifiedAt local > lastSync) in
              if localDirty then Inr (db, res\<lparr>conflicts := conflicts res + 1\<rparr>)
              else
                Inr (db\<lparr>items := map (\<lambda>r. if row_id r = row_id remote then
                            r\<lparr> row_title := row_title remote,
                               row_authors := row_authors remote,
                               row_year := row_year remote,
                               row_journal := row_journal remote,
                               row_volume := row_volume remote,
                               row_issue := row_issue remote,
                               row_pages := row_pages remote,
                               row_doi := row_doi remote,
                               row_isbn := row_isbn remote,
                               row_abstract := row_abstract remote,
                               row_tags := row_tags remote,
                               row_extra := row_extra remote,
                               row_version := row_version remote,
                               row_modifiedAt := row_modifiedAt remote,
                               row_deleted := row_deleted remote \<rparr>
                          else r) (items db)\<rparr>,
                     res\<lparr>pulled := pulled res + 1\<rparr>))
           else Inr (db, res)))"

text \<open>
  The pull loop: an exception (a failed INSERT) leaves the loop with what the earlier
  iterations did.
\<close>

fun pullLoop ::
  "string \<Rightarrow> ItemRow list \<Rightarrow> DB \<Rightarrow> SyncResult \<Rightarrow> DB \<times> SyncResult \<times> error option" where
  "pullLoop lastSync [] db res = (db, res, None)"
| "pullLoop lastSync (remote # rest) db res =
     (case pullItem lastSync remote db res of
        Inl e \<Rightarrow> (db, res, Some e)
      | Inr (db', res') \<Rightarrow> pullLoop lastSync rest db' res')"

text \<open>Step 2 with its \<^verbatim>\<open>try\<close> and \<^verbatim>\<open>catch\<close>.\<close>

definition pullChanges :: "Env \<Rightarrow> string \<Rightarrow> DB \<Rightarrow> SyncResult \<Rightarrow> DB \<times> SyncResult" where
  "pullChanges env lastSync db res =
     (case getChanges (env_backend env) lastSync of
        Inl e \<Rightarrow> (db, res\<lparr>errors := errors res + 1\<rparr>)
      | Inr remoteChanges \<Rightarrow>
          (case pullLoop lastSync remoteChanges db res of
             (db', res', None) \<Rightarrow> (db', res')
           | (db', res', Some e) \<Rightarrow> (db', res'\<lparr>errors := errors res' + 1\<rparr>)))"

text \<open>Step 3.\<close>

definition pushOne :: "Env \<Rightarrow> ItemRow \<Rightarrow> SyncResult \<Rightarrow> SyncResult" where
  "pushOne env item res =
     (case pushItem (env_backend env) item of
        Inr ok \<Rightarrow> res\<lparr>pushed := pushed res + 1\<rparr>
      | Inl err \<Rightarrow>
          (if errorStatus err = Some 409 then res\<lparr>conflicts := conflicts res + 1\<rparr>
           else res\<lparr>errors := errors res + 1\<rparr>))"

definition pushChanges :: "Env \<Rightarrow> string \<Rightarrow> DB \<Rightarrow> SyncResult \<Rightarrow> SyncResult" where
  "pushChanges env lastSync db res =
     fold (pushOne env) (filter (\<lambda>r. row_modifiedAt r > lastSync) (items db)) res"

definition lastSyncTimestamp :: "DB \<Rightarrow> string" where
  "lastSyncTimestamp db =
     (case find (\<lambda>s. ss_key s = ''lastSyncTimestamp'') (sync_state db) of
        Some s \<Rightarrow> ss_value s
      | None \<Rightarrow> ''1970-01-01T00:00:00Z'')"

text \<open>\<^verbatim>\<open>INSERT OR REPLACE INTO sync_state\<close>: the row of that key is replaced.\<close>

definition setLastSync :: "Env \<Rightarrow> DB \<Rightarrow> DB" where
  "setLastSync env db =
     db\<lparr>sync_state :=
          filter (\<lambda>s. ss_key s \<noteq> ''lastSyncTimestamp'') (sync_state db)
          @ [\<lparr> ss_key = ''lastSyncTimestamp'', ss_value = env_nowISO env,
                ss_updatedAt = env_sqlNow env \<rparr>]\<rparr>"

definition syncLoop :: "Env \<Rightarrow> World \<Rightarrow> World \<times> SyncResult" where
  "syncLoop env w =
     (let result = \<lparr> pushed = 0, pulled = 0, conflicts = 0, errors = 0 \<rparr>;
          lastSync = lastSyncTimestamp (w_db w);
          (db1, res1) = pullChanges env lastSync (w_db w) result;
          res2 = pushChanges env lastSync db1 res1
      in case processUploadQueue (processPdfUpload env) (processAnnotationUpload env)
                (env_dateNow env) (w\<lparr>w_db := db1\<rparr>) res2 of
           (w3, res3, Some e) \<Rightarrow> (w3, res3\<lparr>errors := errors res3 + 1\<rparr>)
         | (w3, res3, None) \<Rightarrow> (w3\<lparr>w_db := setLastSync env (w_db w3)\<rparr>, res3))"

subsection \<open>Notions used in the proofs and examples\<close>

text \<open>A merged map is keyed by the identity of its annotations.\<close>

definition keyed :: "Annotation jsMap \<Rightarrow> bool" where
  "keyed m = (distinct (map fst m) \<and> (\<forall>(k, v) \<in> set m. ann_id v = k))"

text \<open>What the second loop leaves under the key of \<open>b\<close> when it meets \<open>e\<close> there.\<close>

definition later :: "Annotation \<Rightarrow> Annotation option \<Rightarrow> Annotation" where
  "later b e =
     (case e of None \<Rightarrow> b
      | Some a \<Rightarrow> if ann_modifiedAt b > ann_modifiedAt a then b else a)"

text \<open>The two edits of one highlight, as in the merge tests.\<close>

definition localEdit :: Annotation where
  "localEdit =
     (makeHighlight ''shared'' 1 [rectAt 700] ''2024-01-02T00:00:00Z'')
       \<lparr>ann_comment := Some ''local edit''\<rparr>"

definition remoteEdit :: Annotation where
  "remoteEdit =
     (makeHighlight ''shared'' 1 [rectAt 700] ''2024-01-03T00:00:00Z'')
       \<lparr>ann_comment := Some ''remote edit''\<rparr>"

definition h1 :: Annotation where
  "h1 = makeHighlight ''h1'' 1 [rectAt 700] ''2024-01-01T10:00:00Z''"

definition n1 :: Annotation where
  "n1 = makeNote ''n1'' 2 500 ''2024-01-01T11:00:00Z''"

text \<open>The three highlights of the sort test: pages 2, 1, 1 at heights 100, 500, 700.\<close>

definition page2y100 :: Annotation where
  "page2y100 = makeHighlight ''a'' 2 [rectAt 100] ''2024-01-01T10:00:00Z''"

definition page1y500 :: Annotation where
  "page1y500 = makeHighlight ''b'' 1 [rectAt 500] ''2024-01-01T10:00:00Z''"

definition page1y700 :: Annotation where
  "page1y700 = makeHighlight ''c'' 1 [rectAt 700] ''2024-01-01T10:00:00Z''"

text \<open>A highlight over two lines whose rectangles are listed bottom line first.\<close>

definition twoLines :: Annotation where
  "twoLines = makeHighlight ''two'' 1 [rectAt 100, rectAt 900] ''2024-01-01T10:00:00Z''"



text \<open>
  Mock collaborators, as the tests inject them, and a small database: one group
  library, and one stored item.
\<close>

definition offlineDrive :: IDriveService where
  "offlineDrive =
     \<lparr> ensureFolder = (\<lambda>parent name. Inl (Error ''offline'')),
       uploadResumable = (\<lambda>opts. Inl (Error ''offline'')),
       downloadJSON = (\<lambda>fileId. Inl (Error ''offline'')),
       getFileMetadata = (\<lambda>fileId. Inl (Error ''offline'')),
       createFile = (\<lambda>opts. Inl (Error ''offline'')),
       updateFile = (\<lambda>fileId content mimeType. Inl (Error ''offline'')) \<rparr>"

definition mockCache :: ICacheService where
  "mockCache =
     \<lparr> getPdfPath = (\<lambda>checksum. None),
       storePdf = (\<lambda>checksum sourcePath. Inr ''/tmp/cache/test.pdf'') \<rparr>"

definition offlineBackend :: IBackendApi where
  "offlineBackend =
     \<lparr> getChanges = (\<lambda>since. Inl (Error ''offline'')),
       pushItem = (\<lambda>item. Inl (Error ''offline'')) \<rparr>"

definition testEnv :: Env where
  "testEnv =
     \<lparr> env_drive = offlineDrive, env_cache = mockCache, env_backend = offlineBackend,
       env_currentUserId = ''test-user'', env_sqlNow = ''2024-06-01 12:00:00'',
       env_nowISO = ''2024-06-01T12:00:00.000Z'',
       env_dateNow = (\<lambda>u. 1717243200000),
       env_uuid = (\<lambda>n. if n = 0 then ''uuid-0'' else if n = 1 then ''uuid-1''
                        else if n = 2 then ''uuid-2'' else ''uuid-3''),
       env_existsSync = (\<lambda>p. True), env_statSize = (\<lambda>p. Inr 1000),
       env_basename = (\<lambda>p. ''paper.pdf''), env_computeSHA256 = (\<lambda>p. Inr ''abc123''),
       env_buildDriveFileName = (\<lambda>checksum name. take 8 checksum @ ''_'' @ name) \<rparr>"

definition testLib :: Library where
  "testLib =
     \<lparr> lib_id = ''lib-1'', lib_name = ''Test Lib'', lib_type = Group,
       lib_groupId = Some ''group-1'', lib_driveRootId = Some ''root-1'',
       lib_createdAt = ''2024-01-01 00:00:00'', lib_modifiedAt = ''2024-01-01 00:00:00'' \<rparr>"

definition testDB :: DB where
  "testDB =
     \<lparr> libraries = [testLib], items = [], attachments = [], annotation_sets = [],
       upload_queue = [], sync_state = [] \<rparr>"

definition newPaper :: NewItem where
  "newPaper =
     \<lparr> new_title = Some ''Original'', new_itemType = None, new_authors = None,
       new_year = Some ''2024'', new_journal = None, new_volume = None, new_issue = None,
       new_pages = None, new_doi = None, new_isbn = None, new_abstract = None,
       new_tags = None \<rparr>"

definition storedRow :: ItemRow where
  "storedRow =
     \<lparr> row_id = ''item-1'', row_libraryId = ''lib-1'', row_itemType = ''journalArticle'',
       row_title = Some ''Original'', row_authors = None, row_year = Some ''2024'',
       row_journal = None, row_volume = None, row_issue = None, row_pages = None,
       row_doi = None, row_isbn = None, row_abstract = None, row_tags = None,
       row_extra = None, row_createdBy = Some ''test-user'',
       row_createdAt = ''2024-01-01 10:00:00'', row_modifiedAt = ''2024-01-01 10:00:00'',
       row_version = 1, row_deleted = 0 \<rparr>"

definition storedDB :: DB where
  "storedDB = testDB\<lparr>items := [storedRow]\<rparr>"

definition titlePatch :: ItemPatch where
  "titlePatch =
     \<lparr> upd_id = None, upd_libraryId = None, upd_itemType = None,
       upd_title = Some ''Updated'', upd_authors = None, upd_year = None,
       upd_journal = None, upd_volume = None, upd_issue = None, upd_pages = None,
       upd_doi = None, upd_isbn = None, upd_abstract = None, upd_tags = None,
       upd_extra = None, upd_createdBy = None, upd_createdAt = None,
       upd_modifiedAt = None, upd_version = None, upd_deleted = None \<rparr>"

text \<open>The errors an INSERT raises.\<close>

definition isSqliteError :: "error \<Rightarrow> bool" where
  "isSqliteError e = (case e of SqliteError m \<Rightarrow> True | _ \<Rightarrow> False)"

text \<open>The identifiers that one call of addPdfToGroup draws are new in every table.\<close>

definition freshUuids :: "Env \<Rightarrow> DB \<Rightarrow> bool" where
  "freshUuids env db =
     (list_all (\<lambda>n. env_uuid env n \<notin> row_id ` set (items db)
                   \<and> env_uuid env n \<notin> att_id ` set (attachments db)
                   \<and> env_uuid env n \<notin> asr_id ` set (annotation_sets db)
                   \<and> env_uuid env n \<notin> uq_id ` set (upload_queue db)) [0, 1, 2, 3])"

text \<open>
  The stored item with a PDF attached, and the same database after the item was
  soft-deleted.
\<close>

definition storedAttachment :: Attachment where
  "storedAttachment =
     \<lparr> att_id = ''att-1'', att_itemId = ''item-1'', att_filename = ''paper.pdf'',
       att_mime = ''application/pdf'', att_size = Some 1000, att_checksum = ''abc123'',
       att_driveFileId = Some ''drive-file-id'', att_parentFolderId = Some ''folder-id'',
       att_sharedDriveId = Some ''root-1'', att_driveWebLink = Some ''https://drive/1'',
       att_driveRevision = Some ''rev-1'', att_createdBy = Some ''test-user'',
       att_createdAt = ''2024-01-01 10:00:00'', att_modifiedAt = ''2024-01-01 10:00:00'',
       att_version = 1 \<rparr>"

definition liveWorld :: World where
  "liveWorld = \<lparr> w_db = storedDB\<lparr>attachments := [storedAttachment]\<rparr>, w_drive = [] \<rparr>"

definition deletedWorld :: World where
  "deletedWorld = liveWorld\<lparr>w_db := deleteItem testEnv (w_db liveWorld) ''item-1''\<rparr>"

text \<open>
  A world in which the attachment of the stored item has an annotation set whose
  sidecar is on Drive at revision \<open>rev-1\<close>, and a Drive on which another user has since
  uploaded revision \<open>rev-2\<close> with the note \<open>n1\<close>.
\<close>

definition storedAnnotationSet :: AnnotationSetRow where
  "storedAnnotationSet =
     \<lparr> asr_id = ''as-1'', asr_attachmentId = ''att-1'', asr_annotations = [],
       asr_driveFileId = Some ''sidecar-1'', asr_driveRevision = Some ''rev-1'',
       asr_localVersion = 2, asr_remoteVersion = 2, asr_isDirty = 0,
       asr_createdBy = Some ''test-user'', asr_createdAt = ''2024-01-01 10:00:00'',
       asr_modifiedAt = ''2024-01-01 10:00:00'' \<rparr>"

definition annotatedWorld :: World where
  "annotatedWorld =
     liveWorld\<lparr>w_db := (w_db liveWorld)\<lparr>annotation_sets := [storedAnnotationSet]\<rparr>\<rparr>"

definition sidecarMeta :: "string \<Rightarrow> DriveFileMetadata" where
  "sidecarMeta revision =
     \<lparr> df_id = ''sidecar-1'', df_name = ''att-1.json'', df_mimeType = ''application/json'',
       df_size = 500, df_headRevisionId = revision, df_webViewLink = ''https://drive/sidecar-1'',
       df_parents = [''folder-id''] \<rparr>"

definition remoteSidecar :: AnnotationSidecar where
  "remoteSidecar =
     \<lparr> sc_schemaVersion = 1, sc_attachmentId = ''att-1'',
       sc_lastModified = ''2024-05-31T09:00:00.000Z'', sc_version = 3,
       sc_createdBy = ''bob@example.com'', sc_annotations = [n1] \<rparr>"

definition conflictDrive :: IDriveService where
  "conflictDrive =
     \<lparr> ensureFolder = (\<lambda>parent name. Inr ''folder-id''),
       uploadResumable = (\<lambda>opts. Inl (Error ''offline'')),
       downloadJSON = (\<lambda>fileId. Inr remoteSidecar),
       getFileMetadata = (\<lambda>fileId. Inr (sidecarMeta ''rev-2'')),
       createFile = (\<lambda>opts. Inr (sidecarMeta ''rev-1'')),
       updateFile = (\<lambda>fileId content mimeType. Inr (sidecarMeta ''rev-3'')) \<rparr>"

definition conflictEnv :: Env where
  "conflictEnv = testEnv\<lparr>env_drive := conflictDrive\<rparr>"

text \<open>A handler that leaves the upload queue alone, as both handlers of the source do.\<close>

definition preservesQueue :: "handler \<Rightarrow> bool" where
  "preservesQueue h =
     (\<forall>u w w'. h u w = Inr w' \<longrightarrow> upload_queue (w_db w') = upload_queue (w_db w))"



text \<open>The row an entry becomes when its handler returns, and when it throws.\<close>

definition completedRow :: "UploadQueueEntry \<Rightarrow> UploadQueueEntry" where
  "completedRow u = u\<lparr>uq_status := Completed\<rparr>"

definition retryRow :: "int \<Rightarrow> string \<Rightarrow> UploadQueueEntry \<Rightarrow> UploadQueueEntry" where
  "retryRow now errMsg u =
     (if uq_retryCount u + 1 \<ge> uq_maxRetries u
      then u\<lparr> uq_status := Failed, uq_errorMsg := Some errMsg,
              uq_retryCount := uq_retryCount u + 1 \<rparr>
      else u\<lparr> uq_retryCount := uq_retryCount u + 1,
              uq_nextRetryAt := Some (now + 2 ^ (uq_retryCount u + 1) * 1000),
              uq_errorMsg := Some errMsg \<rparr>)"


definition zeroResult :: SyncResult where
  "zeroResult = \<lparr> pushed = 0, pulled = 0, conflicts = 0, errors = 0 \<rparr>"











text \<open>
  The world after \<open>h1\<close> was saved while Drive was unreachable: the annotation set is
  dirty and an annotation entry is pending in the queue.
\<close>

definition offlineSaved :: World where
  "offlineSaved = fst (saveAnnotations testEnv annotatedWorld ''att-1'' [h1])"

text \<open>
  One morning of a single device. At 10:00 a sync pass runs against a backend with
  nothing new; at 11:00 the user retitles the stored item; at 11:05 the next pass
  pulls version 3 of that item, which another user pushed at 10:30.
\<close>

definition quietBackend :: IBackendApi where
  "quietBackend = \<lparr> getChanges = (\<lambda>since. Inr []), pushItem = (\<lambda>item. Inr ()) \<rparr>"

definition remoteV3 :: ItemRow where
  "remoteV3 =
     storedRow\<lparr> row_title := Some ''Remote title'', row_version := 3,
                row_modifiedAt := ''2024-06-01T10:30:00.000Z'' \<rparr>"

definition busyBackend :: IBackendApi where
  "busyBackend = \<lparr> getChanges = (\<lambda>since. Inr [remoteV3]), pushItem = (\<lambda>item. Inr ()) \<rparr>"

definition envAt1000 :: Env where
  "envAt1000 =
     testEnv\<lparr> env_backend := quietBackend, env_sqlNow := ''2024-06-01 10:00:00'',
              env_nowISO := ''2024-06-01T10:00:00.000Z'' \<rparr>"

definition envAt1100 :: Env where
  "envAt1100 =
     testEnv\<lparr> env_sqlNow := ''2024-06-01 11:00:00'',
              env_nowISO := ''2024-06-01T11:00:00.000Z'' \<rparr>"

definition envAt1105 :: Env where
  "envAt1105 =
     testEnv\<lparr> env_backend := busyBackend, env_sqlNow := ''2024-06-01 11:05:00'',
              env_nowISO := ''2024-06-01T11:05:00.000Z'' \<rparr>"

definition syncedWorld :: World where
  "syncedWorld = fst (syncLoop envAt1000 \<lparr> w_db = storedDB, w_drive = [] \<rparr>)"

definition editedWorld :: World where
  "editedWorld =
     (case updateItem envAt1100 (w_db syncedWorld) ''item-1'' titlePatch of
        Inr (db, item) \<Rightarrow> syncedWorld\<lparr>w_db := db\<rparr>
      | Inl e \<Rightarrow> syncedWorld)"

section \<open>Properties of the annotation merge\<close>

subsection \<open>The map\<close>

lemma mapGet_map_of: "mapGet m k = map_of m k"
  by (induction m) auto

lemma mapGet_mapSet: "mapGet (mapSet m k v) k' = (if k' = k then Some v else mapGet m k')"
  by (induction m) auto

lemma keys_mapSet: "fst ` set (mapSet m k v) = insert k (fst ` set m)"
  by (induction m k v rule: mapSet.induct) (simp_all add: insert_commute)

lemma distinct_mapSet: "distinct (map fst m) \<Longrightarrow> distinct (map fst (mapSet m k v))"
  by (induction m) (auto simp: keys_mapSet)

lemma set_mapSet_subset: "set (mapSet m k v) \<subseteq> insert (k, v) (set m)"
  by (induction m) (auto split: if_splits)

lemma keyed_mapSet: "keyed m \<Longrightarrow> keyed (mapSet m (ann_id a) a)"
  unfolding keyed_def using set_mapSet_subset [of m "ann_id a" a]
  by (auto simp: distinct_mapSet)

lemma keyed_addLocal: "keyed m \<Longrightarrow> keyed (addLocal m a)"
  by (simp add: addLocal_def keyed_mapSet)

lemma keyed_mergeRemote: "keyed m \<Longrightarrow> keyed (mergeRemote m a)"
  by (simp add: mergeRemote_def keyed_mapSet split: option.splits)

lemma keyed_fold_addLocal: "keyed m \<Longrightarrow> keyed (fold (\<lambda>ann m. addLocal m ann) xs m)"
  by (induction xs arbitrary: m) (auto simp: keyed_addLocal)

lemma keyed_fold_mergeRemote: "keyed m \<Longrightarrow> keyed (fold (\<lambda>ann m. mergeRemote m ann) xs m)"
  by (induction xs arbitrary: m) (auto simp: keyed_mergeRemote)

lemma keyed_mergedMap: "keyed (mergedMap l r)"
proof -
  have "keyed []" by (simp add: keyed_def)
  then show ?thesis
    by (simp add: mergedMap_def keyed_fold_mergeRemote keyed_fold_addLocal)
qed

text \<open>In a keyed map the annotations of one identity are the entry under that key.\<close>

lemma keyed_filter:
  "keyed m \<Longrightarrow>
   filter (\<lambda>x. ann_id x = i) (mapValues m) = (case mapGet m i of None \<Rightarrow> [] | Some v \<Rightarrow> [v])"
proof (induction m)
  case Nil
  then show ?case by (simp add: mapValues_def)
next
  case (Cons p m)
  obtain k v where p: "p = (k, v)" by (cases p)
  from Cons.prems have km: "keyed m" and kv: "ann_id v = k" and nk: "k \<notin> fst ` set m"
    by (auto simp: keyed_def p)
  have ih: "filter (\<lambda>x. ann_id x = i) (mapValues m)
      = (case mapGet m i of None \<Rightarrow> [] | Some v \<Rightarrow> [v])"
    using Cons.IH km by simp
  show ?case
  proof (cases "k = i")
    case True
    then have "mapGet m i = None" using nk by (simp add: mapGet_map_of map_of_eq_None_iff)
    with ih True kv show ?thesis by (simp add: p mapValues_def)
  next
    case False
    with ih kv show ?thesis by (simp add: p mapValues_def)
  qed
qed

subsection \<open>The sort\<close>

lemma mset_sortInsert: "mset (sortInsert cmp a xs) = add_mset a (mset xs)"
  by (induction xs) auto

lemma mset_jsSort: "mset (jsSort cmp xs) = mset xs"
  by (induction xs) (auto simp: jsSort_def mset_sortInsert)

lemma set_sortInsert: "set (sortInsert cmp a xs) = insert a (set xs)"
  by (induction xs) auto

lemma filter_jsSort_single:
  assumes "filter P xs = [v]"
  shows "filter P (jsSort cmp xs) = [v]"
proof -
  have "mset (filter P (jsSort cmp xs)) = mset (filter P xs)"
    by (simp add: mset_jsSort)
  with assms have "mset (filter P (jsSort cmp xs)) = {#v#}" by simp
  then show ?thesis by (simp only: mset_single_iff)
qed

lemma sorted_sortInsert:
  assumes tot: "\<And>a b. cmp a b \<le> 0 \<or> cmp b a \<le> 0"
    and trans: "\<And>a b c. cmp a b \<le> 0 \<Longrightarrow> cmp b c \<le> 0 \<Longrightarrow> cmp a c \<le> 0"
  shows "sorted_wrt (\<lambda>a b. cmp a b \<le> 0) xs \<Longrightarrow>
         sorted_wrt (\<lambda>a b. cmp a b \<le> 0) (sortInsert cmp a xs)"
proof (induction xs)
  case Nil
  then show ?case by simp
next
  case (Cons x xs)
  show ?case
  proof (cases "cmp a x \<le> 0")
    case True
    then have "\<forall>y\<in>set xs. cmp a y \<le> 0" using Cons.prems trans by auto
    with True Cons.prems show ?thesis by simp
  next
    case False
    then have "cmp x a \<le> 0" using tot [of a x] by simp
    with False Cons show ?thesis by (auto simp: set_sortInsert)
  qed
qed

lemma sorted_jsSort:
  assumes tot: "\<And>a b. cmp a b \<le> 0 \<or> cmp b a \<le> 0"
    and trans: "\<And>a b c. cmp a b \<le> 0 \<Longrightarrow> cmp b c \<le> 0 \<Longrightarrow> cmp a c \<le> 0"
  shows "sorted_wrt (\<lambda>a b. cmp a b \<le> 0) (jsSort cmp xs)"
proof (induction xs)
  case Nil
  then show ?case by (simp add: jsSort_def)
next
  case (Cons x xs)
  have "jsSort cmp (x # xs) = sortInsert cmp x (jsSort cmp xs)" by (simp add: jsSort_def)
  with Cons sorted_sortInsert [of cmp, OF tot trans] show ?case by simp
qed

lemma compare_le0:
  "compareAnnotations a b \<le> 0 \<longleftrightarrow>
     (ann_page a < ann_page b \<or>
      (ann_page a = ann_page b \<and> verticalPosition b \<le> verticalPosition a))"
  by (auto simp: compareAnnotations_def)

subsection \<open>What the two loops leave under a key\<close>

lemma mapGet_addLocal:
  "mapGet (addLocal m x) i = (if i = ann_id x then Some x else mapGet m i)"
  by (simp add: addLocal_def mapGet_mapSet)

lemma mapGet_fold_addLocal_other:
  "\<forall>x\<in>set xs. ann_id x \<noteq> i \<Longrightarrow>
   mapGet (fold (\<lambda>ann m. addLocal m ann) xs m) i = mapGet m i"
  by (induction xs arbitrary: m) (auto simp: mapGet_addLocal)

lemma mapGet_fold_addLocal_unique:
  "a \<in> set xs \<Longrightarrow> \<forall>x\<in>set xs. ann_id x = ann_id a \<longrightarrow> x = a \<Longrightarrow>
   mapGet m (ann_id a) = None \<or> mapGet m (ann_id a) = Some a \<Longrightarrow>
   mapGet (fold (\<lambda>ann m. addLocal m ann) xs m) (ann_id a) = Some a"
proof (induction xs arbitrary: m)
  case Nil
  then show ?case by simp
next
  case (Cons x xs)
  show ?case
  proof (cases "a \<in> set xs")
    case True
    have "mapGet (addLocal m x) (ann_id a) = None \<or> mapGet (addLocal m x) (ann_id a) = Some a"
      using Cons.prems by (auto simp: mapGet_addLocal)
    with Cons.IH [of "addLocal m x"] True Cons.prems(2) show ?thesis by simp
  next
    case False
    with Cons.prems have xa: "x = a" by simp
    have "\<forall>y\<in>set xs. ann_id y \<noteq> ann_id a" using Cons.prems(2) False by auto
    then have "mapGet (fold (\<lambda>ann m. addLocal m ann) xs (addLocal m a)) (ann_id a)
        = mapGet (addLocal m a) (ann_id a)"
      by (rule mapGet_fold_addLocal_other)
    then show ?thesis by (simp add: xa mapGet_addLocal)
  qed
qed

lemma mapGet_mergeRemote:
  "mapGet (mergeRemote m x) i =
     (if i = ann_id x then Some (later x (mapGet m i)) else mapGet m i)"
  by (simp add: mergeRemote_def mapGet_mapSet later_def split: option.splits)

lemma mapGet_fold_mergeRemote_other:
  "\<forall>x\<in>set xs. ann_id x \<noteq> i \<Longrightarrow>
   mapGet (fold (\<lambda>ann m. mergeRemote m ann) xs m) i = mapGet m i"
  by (induction xs arbitrary: m) (auto simp: mapGet_mergeRemote)

lemma later_idem: "later b (Some (later b e)) = later b e"
  by (auto simp: later_def split: option.splits)

lemma mapGet_fold_mergeRemote_unique:
  "b \<in> set xs \<Longrightarrow> \<forall>x\<in>set xs. ann_id x = ann_id b \<longrightarrow> x = b \<Longrightarrow>
   mapGet (fold (\<lambda>ann m. mergeRemote m ann) xs m) (ann_id b)
     = Some (later b (mapGet m (ann_id b)))"
proof (induction xs arbitrary: m)
  case Nil
  then show ?case by simp
next
  case (Cons x xs)
  show ?case
  proof (cases "x = b")
    case xb: True
    have step: "mapGet (mergeRemote m b) (ann_id b) = Some (later b (mapGet m (ann_id b)))"
      by (simp add: mapGet_mergeRemote)
    show ?thesis
    proof (cases "b \<in> set xs")
      case True
      with Cons.IH [of "mergeRemote m b"] Cons.prems(2) step show ?thesis
        by (simp add: xb later_idem)
    next
      case False
      then have "\<forall>y\<in>set xs. ann_id y \<noteq> ann_id b" using Cons.prems(2) by auto
      then have "mapGet (fold (\<lambda>ann m. mergeRemote m ann) xs (mergeRemote m b)) (ann_id b)
          = mapGet (mergeRemote m b) (ann_id b)"
        by (rule mapGet_fold_mergeRemote_other)
      with step show ?thesis by (simp add: xb)
    qed
  next
    case False
    with Cons.prems have mem: "b \<in> set xs" and idx: "ann_id x \<noteq> ann_id b" by auto
    have "mapGet (mergeRemote m x) (ann_id b) = mapGet m (ann_id b)"
      using idx by (simp add: mapGet_mergeRemote)
    with Cons.IH [of "mergeRemote m x"] mem Cons.prems(2) show ?thesis by simp
  qed
qed

lemma filter_mergeAnnotations:
  "mapGet (mergedMap l r) i = Some v \<Longrightarrow>
   filter (\<lambda>x. ann_id x = i) (mergeAnnotations l r) = [v]"
  unfolding mergeAnnotations_def
  by (rule filter_jsSort_single) (simp add: keyed_filter [OF keyed_mergedMap])

lemma mem_mergeAnnotations:
  assumes "mapGet (mergedMap l r) i = Some v"
  shows "v \<in> set (mergeAnnotations l r)"
proof -
  have "filter (\<lambda>x. ann_id x = i) (mergeAnnotations l r) = [v]"
    using assms by (rule filter_mergeAnnotations)
  then have "v \<in> set (filter (\<lambda>x. ann_id x = i) (mergeAnnotations l r))" by simp
  then show ?thesis by simp
qed

lemma mergedMap_shared:
  assumes "a \<in> set l" "\<forall>x\<in>set l. ann_id x = ann_id a \<longrightarrow> x = a"
    and "b \<in> set r" "\<forall>x\<in>set r. ann_id x = ann_id b \<longrightarrow> x = b"
    and "ann_id a = ann_id b"
  shows "mapGet (mergedMap l r) (ann_id a)
           = Some (if ann_modifiedAt b > ann_modifiedAt a then b else a)"
proof -
  have 1: "mapGet (fold (\<lambda>ann m. addLocal m ann) l []) (ann_id a) = Some a"
    using assms(1,2) by (intro mapGet_fold_addLocal_unique) simp_all
  have "mapGet (mergedMap l r) (ann_id b)
      = Some (later b (mapGet (fold (\<lambda>ann m. addLocal m ann) l []) (ann_id b)))"
    unfolding mergedMap_def using assms(3,4) by (rule mapGet_fold_mergeRemote_unique)
  with 1 assms(5) show ?thesis by (simp add: later_def)
qed

lemmas merge_eval =
  mergeAnnotations_def mergedMap_def addLocal_def mergeRemote_def mapValues_def jsSort_def
  compareAnnotations_def verticalPosition_def makeHighlight_def makeNote_def rectAt_def

section \<open>Claims about the annotation merge\<close>

text \<open>
  Claim C2. When \<open>local\<close> and \<open>remote\<close> each hold an annotation of one identity (\<open>a\<close> in
  \<open>local\<close>, \<open>b\<close> in \<open>remote\<close>, each the only annotation of that identity in its
  collection, as identities are unique), the result of mergeAnnotations holds exactly
  one annotation of that identity: the one with the strictly later \<open>modifiedAt\<close>, and
  the local one when the two \<open>modifiedAt\<close> are equal.
\<close>

theorem merge_same_id_keeps_later:
  assumes "a \<in> set l" and "\<forall>x\<in>set l. ann_id x = ann_id a \<longrightarrow> x = a"
    and "b \<in> set r" and "\<forall>x\<in>set r. ann_id x = ann_id b \<longrightarrow> x = b"
    and "ann_id a = ann_id b"
  shows "(ann_modifiedAt a < ann_modifiedAt b \<longrightarrow>
            filter (\<lambda>x. ann_id x = ann_id a) (mergeAnnotations l r) = [b])
       \<and> (ann_modifiedAt b < ann_modifiedAt a \<longrightarrow>
            filter (\<lambda>x. ann_id x = ann_id a) (mergeAnnotations l r) = [a])
       \<and> (ann_modifiedAt a = ann_modifiedAt b \<longrightarrow>
            filter (\<lambda>x. ann_id x = ann_id a) (mergeAnnotations l r) = [a])"
proof -
  have "filter (\<lambda>x. ann_id x = ann_id a) (mergeAnnotations l r)
      = [if ann_modifiedAt b > ann_modifiedAt a then b else a]"
    using mergedMap_shared [OF assms] by (rule filter_mergeAnnotations)
  then show ?thesis by auto
qed

theorem merge_same_id_keeps_later_witness:
  "localEdit \<in> set [h1, localEdit] \<and> remoteEdit \<in> set [remoteEdit, n1]
   \<and> ann_id localEdit = ann_id remoteEdit
   \<and> ann_modifiedAt localEdit < ann_modifiedAt remoteEdit
   \<and> filter (\<lambda>x. ann_id x = ann_id localEdit)
        (mergeAnnotations [h1, localEdit] [remoteEdit, n1]) = [remoteEdit]"
proof -
  have 1: "localEdit \<in> set [h1, localEdit]" by simp
  have 2: "\<forall>x\<in>set [h1, localEdit]. ann_id x = ann_id localEdit \<longrightarrow> x = localEdit"
    by (simp add: h1_def localEdit_def makeHighlight_def)
  have 3: "remoteEdit \<in> set [remoteEdit, n1]" by simp
  have 4: "\<forall>x\<in>set [remoteEdit, n1]. ann_id x = ann_id remoteEdit \<longrightarrow> x = remoteEdit"
    by (simp add: n1_def remoteEdit_def makeHighlight_def makeNote_def)
  have 5: "ann_id localEdit = ann_id remoteEdit"
    by (simp add: localEdit_def remoteEdit_def makeHighlight_def)
  have 6: "ann_modifiedAt localEdit < ann_modifiedAt remoteEdit"
    by (simp add: localEdit_def remoteEdit_def makeHighlight_def)
  from merge_same_id_keeps_later [OF 1 2 3 4 5] 6
  have "filter (\<lambda>x. ann_id x = ann_id localEdit)
        (mergeAnnotations [h1, localEdit] [remoteEdit, n1]) = [remoteEdit]" by blast
  with 1 3 5 6 show ?thesis by blast
qed

text \<open>
  Claim C3, as stated, fails: the local annotation \<open>localEdit\<close> and the remote
  annotation \<open>n1\<close> have different identities, yet the merge of \<open>[localEdit]\<close> with
  \<open>[n1, remoteEdit]\<close> does not contain \<open>localEdit\<close>, which the later remote edit of the
  same identity replaces.
\<close>

theorem merge_union_counterexample:
  "localEdit \<in> set [localEdit] \<and> n1 \<in> set [n1, remoteEdit]
   \<and> ann_id localEdit \<noteq> ann_id n1
   \<and> localEdit \<notin> set (mergeAnnotations [localEdit] [n1, remoteEdit])"
  by (simp add: merge_eval localEdit_def remoteEdit_def n1_def)

text \<open>
  Claim C3, amended. An annotation \<open>a\<close> of \<open>local\<close> whose identity no annotation of
  \<open>remote\<close> carries and an annotation \<open>b\<close> of \<open>remote\<close> whose identity no annotation of
  \<open>local\<close> carries (each the only annotation of its identity in its own collection)
  are both in the result of mergeAnnotations.
\<close>

theorem merge_union:
  assumes "a \<in> set l" and "\<forall>x\<in>set l. ann_id x = ann_id a \<longrightarrow> x = a"
    and "b \<in> set r" and "\<forall>x\<in>set r. ann_id x = ann_id b \<longrightarrow> x = b"
    and "\<forall>x\<in>set r. ann_id x \<noteq> ann_id a" and "\<forall>x\<in>set l. ann_id x \<noteq> ann_id b"
  shows "a \<in> set (mergeAnnotations l r) \<and> b \<in> set (mergeAnnotations l r)"
proof -
  have "mapGet (fold (\<lambda>ann m. addLocal m ann) l []) (ann_id a) = Some a"
    using assms(1,2) by (intro mapGet_fold_addLocal_unique) simp_all
  then have "mapGet (mergedMap l r) (ann_id a) = Some a"
    unfolding mergedMap_def using mapGet_fold_mergeRemote_other [OF assms(5)] by simp
  then have A: "a \<in> set (mergeAnnotations l r)" by (rule mem_mergeAnnotations)
  have "mapGet (fold (\<lambda>ann m. addLocal m ann) l []) (ann_id b) = None"
    using mapGet_fold_addLocal_other [OF assms(6), of "[]"] by simp
  moreover have "mapGet (mergedMap l r) (ann_id b)
      = Some (later b (mapGet (fold (\<lambda>ann m. addLocal m ann) l []) (ann_id b)))"
    unfolding mergedMap_def using assms(3,4) by (rule mapGet_fold_mergeRemote_unique)
  ultimately have "mapGet (mergedMap l r) (ann_id b) = Some b" by (simp add: later_def)
  then have "b \<in> set (mergeAnnotations l r)" by (rule mem_mergeAnnotations)
  with A show ?thesis by simp
qed

theorem merge_union_witness:
  "h1 \<in> set [h1, localEdit] \<and> n1 \<in> set [remoteEdit, n1]
   \<and> h1 \<in> set (mergeAnnotations [h1, localEdit] [remoteEdit, n1])
   \<and> n1 \<in> set (mergeAnnotations [h1, localEdit] [remoteEdit, n1])"
proof -
  have 1: "h1 \<in> set [h1, localEdit]" by simp
  have 2: "\<forall>x\<in>set [h1, localEdit]. ann_id x = ann_id h1 \<longrightarrow> x = h1"
    by (simp add: h1_def localEdit_def makeHighlight_def)
  have 3: "n1 \<in> set [remoteEdit, n1]" by simp
  have 4: "\<forall>x\<in>set [remoteEdit, n1]. ann_id x = ann_id n1 \<longrightarrow> x = n1"
    by (simp add: n1_def remoteEdit_def makeHighlight_def makeNote_def)
  have 5: "\<forall>x\<in>set [remoteEdit, n1]. ann_id x \<noteq> ann_id h1"
    by (simp add: n1_def h1_def remoteEdit_def makeHighlight_def makeNote_def)
  have 6: "\<forall>x\<in>set [h1, localEdit]. ann_id x \<noteq> ann_id n1"
    by (simp add: n1_def h1_def localEdit_def makeHighlight_def makeNote_def)
  from merge_union [OF 1 2 3 4 5 6] 1 3 show ?thesis by blast
qed

text \<open>
  Claim C4, as stated, fails: \<open>twoLines\<close> and \<open>page1y500\<close> are on the same page and the
  top-most rectangle of \<open>twoLines\<close> (\<open>y1 = 900\<close>) is above that of \<open>page1y500\<close>, yet
  \<open>page1y500\<close> comes first: the code reads the first rectangle (\<open>y1 = 100\<close>), not the
  top-most one.
\<close>

theorem merge_order_counterexample:
  "mergeAnnotations [twoLines, page1y500] [] = [page1y500, twoLines]
   \<and> ann_page page1y500 = ann_page twoLines
   \<and> verticalPosition_spec page1y500 < verticalPosition_spec twoLines"
  by (simp add: merge_eval verticalPosition_spec_def twoLines_def page1y500_def)

text \<open>
  Claim C4, amended. The result of mergeAnnotations is ordered by ascending page and,
  within a page, by descending vertical position, where the vertical position of an
  annotation is the \<open>y1\<close> of its first rectangle, else the \<open>y\<close> of its point, else 0;
  the annotations on pages 2, 1, 1 at heights 100, 500, 700 come out as page 1 at 700,
  page 1 at 500, page 2 at 100.
\<close>

theorem merge_order:
  "sorted_wrt (\<lambda>a b. ann_page a < ann_page b \<or>
                      (ann_page a = ann_page b \<and> verticalPosition b \<le> verticalPosition a))
     (mergeAnnotations l r)
   \<and> verticalPosition (a\<lparr>ann_rects := Some (rect # rects)\<rparr>) = rect_y1 rect
   \<and> verticalPosition (a\<lparr>ann_rects := Some [], ann_position := Some p\<rparr>) = pos_y p
   \<and> verticalPosition (a\<lparr>ann_rects := None, ann_position := Some p\<rparr>) = pos_y p
   \<and> verticalPosition (a\<lparr>ann_rects := Some [], ann_position := None\<rparr>) = 0
   \<and> verticalPosition (a\<lparr>ann_rects := None, ann_position := None\<rparr>) = 0
   \<and> mergeAnnotations [page2y100, page1y500, page1y700] []
       = [page1y700, page1y500, page2y100]"
proof -
  have "sorted_wrt (\<lambda>a b. compareAnnotations a b \<le> 0) (mergeAnnotations l r)"
    unfolding mergeAnnotations_def
  proof (rule sorted_jsSort)
    fix a b show "compareAnnotations a b \<le> 0 \<or> compareAnnotations b a \<le> 0"
      by (auto simp: compare_le0)
  next
    fix a b c
    assume "compareAnnotations a b \<le> 0" "compareAnnotations b c \<le> 0"
    then show "compareAnnotations a c \<le> 0" by (auto simp: compare_le0)
  qed
  then have sorted: "sorted_wrt (\<lambda>a b. ann_page a < ann_page b \<or>
                      (ann_page a = ann_page b \<and> verticalPosition b \<le> verticalPosition a))
     (mergeAnnotations l r)" by (simp add: compare_le0)
  have example: "mergeAnnotations [page2y100, page1y500, page1y700] []
       = [page1y700, page1y500, page2y100]"
    by (simp add: merge_eval page2y100_def page1y500_def page1y700_def)
  show ?thesis using sorted example by (simp add: verticalPosition_def)
qed

section \<open>Claims about the sidecar envelope\<close>




section \<open>Claims about items\<close>










lemmas test_eval =
  testEnv_def testDB_def testLib_def storedDB_def storedRow_def newPaper_def titlePatch_def
  offlineDrive_def mockCache_def offlineBackend_def


section \<open>Claims about adding a PDF\<close>

lemma insertItem_error: "insertItem db r = Inl e \<Longrightarrow> isSqliteError e"
  by (auto simp: insertItem_def isSqliteError_def split: if_splits)

lemma insertAttachment_error: "insertAttachment db r = Inl e \<Longrightarrow> isSqliteError e"
  by (auto simp: insertAttachment_def isSqliteError_def split: if_splits)

lemma insertAnnotationSet_error: "insertAnnotationSet db r = Inl e \<Longrightarrow> isSqliteError e"
  by (auto simp: insertAnnotationSet_def isSqliteError_def split: if_splits)

lemma insertUploadQueue_error: "insertUploadQueue db r = Inl e \<Longrightarrow> isSqliteError e"
  by (auto simp: insertUploadQueue_def isSqliteError_def split: if_splits)

lemma bindE_Inl: "bindE m f = Inl e \<Longrightarrow> m = Inl e \<or> (\<exists>x. m = Inr x \<and> f x = Inl e)"
  by (auto simp: bindE_def split: sum.splits)

lemma insertQueuedPdf_error:
  "insertQueuedPdf env db library checksum filename fileSize path = Inl e \<Longrightarrow> isSqliteError e"
  unfolding insertQueuedPdf_def Let_def
  by (auto dest!: bindE_Inl dest: insertItem_error insertAttachment_error
      insertAnnotationSet_error insertUploadQueue_error)

lemma insertUploadedPdf_error:
  "insertUploadedPdf env db library checksum filename fileSize driveFile = Inl e \<Longrightarrow> isSqliteError e"
  unfolding insertUploadedPdf_def Let_def
  by (auto dest!: bindE_Inl dest: insertItem_error insertAttachment_error
      insertAnnotationSet_error)

lemma findDuplicate_None:
  "findDuplicate db checksum libraryId = None \<longleftrightarrow>
     \<not> (\<exists>a\<in>set (attachments db). att_checksum a = checksum \<and>
          (\<exists>i\<in>set (items db). row_id i = att_itemId a \<and> row_libraryId i = libraryId
              \<and> row_deleted i = 0))"
  by (auto simp: findDuplicate_def find_None_iff)

lemma findDuplicate_Some:
  "findDuplicate db checksum libraryId = Some a \<Longrightarrow>
     a \<in> set (attachments db) \<and> att_checksum a = checksum \<and>
          (\<exists>i\<in>set (items db). row_id i = att_itemId a \<and> row_libraryId i = libraryId
              \<and> row_deleted i = 0)"
  by (auto simp: findDuplicate_def find_Some_iff)

lemma addPdfToGroup_at_check:
  assumes "env_existsSync env path" and "env_computeSHA256 env path = Inr checksum"
    and "env_statSize env path = Inr fileSize"
    and "find (\<lambda>l. lib_groupId l = Some groupId) (libraries (w_db w)) = Some library"
  shows "addPdfToGroup env w groupId path =
     (case findDuplicate (w_db w) checksum (lib_id library) of
          Some existing \<Rightarrow>
            (w, Inl (DuplicateError
                       (''PDF already exists in this group library: '' @ att_filename existing)))
        | None \<Rightarrow>
        (case uploadPdf env library checksum (env_basename env path) path of
           Inl err \<Rightarrow>
             (case insertQueuedPdf env (w_db w) library checksum (env_basename env path) fileSize path of
                Inl e \<Rightarrow> (w, Inl e)
              | Inr db' \<Rightarrow>
                  (case storePdf (env_cache env) checksum path of
                     Inl e \<Rightarrow> (w\<lparr>w_db := db'\<rparr>, Inl e)
                   | Inr dest \<Rightarrow> (w\<lparr>w_db := db'\<rparr>, Inr (getItem db' (env_uuid env 1)))))
         | Inr (opts, driveFile) \<Rightarrow>
             (let w1 = w\<lparr>w_drive := w_drive w @ [UploadResumable opts]\<rparr> in
              case insertUploadedPdf env (w_db w) library checksum (env_basename env path) fileSize driveFile of
                Inl e \<Rightarrow> (w1, Inl e)
              | Inr db' \<Rightarrow>
                  (case storePdf (env_cache env) checksum path of
                     Inl e \<Rightarrow> (w1\<lparr>w_db := db'\<rparr>, Inl e)
                   | Inr dest \<Rightarrow> (w1\<lparr>w_db := db'\<rparr>, Inr (getItem db' (env_uuid env 0)))))))"
  using assms by (simp add: addPdfToGroup_def Let_def)

lemma addPdfToGroup_no_duplicate:
  assumes "env_existsSync env path" and "env_computeSHA256 env path = Inr checksum"
    and "env_statSize env path = Inr fileSize"
    and "find (\<lambda>l. lib_groupId l = Some groupId) (libraries (w_db w)) = Some library"
    and "findDuplicate (w_db w) checksum (lib_id library) = None"
    and "\<forall>m. storePdf (env_cache env) checksum path \<noteq> Inl (DuplicateError m)"
  shows "snd (addPdfToGroup env w groupId path) \<noteq> Inl (DuplicateError m)"
proof -
  have sq: "\<And>e. isSqliteError e \<Longrightarrow> e \<noteq> DuplicateError m"
    by (auto simp: isSqliteError_def)
  show ?thesis
    unfolding addPdfToGroup_at_check [OF assms(1-4)] assms(5)
    using assms(6)
    by (auto simp: Let_def split: sum.splits prod.splits
        dest!: insertQueuedPdf_error insertUploadedPdf_error sq)
qed

lemma find_snoc_fresh':
  "x \<notin> key ` set rows \<Longrightarrow> find (\<lambda>r. key r = x) (rows @ [y]) = (if key y = x then Some y else None)"
  by (induction rows) auto

lemma addPdfToGroup_succeeds:
  assumes "env_existsSync env path" and "env_computeSHA256 env path = Inr checksum"
    and "env_statSize env path = Inr fileSize"
    and lib: "find (\<lambda>l. lib_groupId l = Some groupId) (libraries (w_db w)) = Some library"
    and nodup: "findDuplicate (w_db w) checksum (lib_id library) = None"
    and fresh: "freshUuids env (w_db w)"
    and store: "storePdf (env_cache env) checksum path = Inr dest"
  shows "\<exists>w' it. addPdfToGroup env w groupId path = (w', Inr (Some it))
           \<and> item_version it = 1 \<and> \<not> item_deleted it \<and> item_libraryId it = lib_id library"
proof -
  have libmem: "lib_id library \<in> lib_id ` set (libraries (w_db w))"
    using lib by (auto simp: find_Some_iff)
  from fresh have f:
    "env_uuid env 0 \<notin> row_id ` set (items (w_db w))"
    "env_uuid env 1 \<notin> row_id ` set (items (w_db w))"
    "env_uuid env 1 \<notin> att_id ` set (attachments (w_db w))"
    "env_uuid env 2 \<notin> att_id ` set (attachments (w_db w))"
    "env_uuid env 2 \<notin> asr_id ` set (annotation_sets (w_db w))"
    "env_uuid env 3 \<notin> asr_id ` set (annotation_sets (w_db w))"
    "env_uuid env 0 \<notin> uq_id ` set (upload_queue (w_db w))"
    by (simp_all add: freshUuids_def)
  have queued: "\<exists>db'. insertQueuedPdf env (w_db w) library checksum (env_basename env path) fileSize path = Inr db'
      \<and> items db' = items (w_db w) @ [pdfItemRow env (env_uuid env 1) (lib_id library) (env_basename env path)]"
    using f libmem
    by (simp add: insertQueuedPdf_def Let_def bindE_def insertItem_def insertAttachment_def
        insertAnnotationSet_def insertUploadQueue_def pdfItemRow_def newAnnotationSetRow_def
        newQueueEntry_def)
  have uploaded: "\<And>driveFile. \<exists>db'. insertUploadedPdf env (w_db w) library checksum (env_basename env path) fileSize driveFile = Inr db'
      \<and> items db' = items (w_db w) @ [pdfItemRow env (env_uuid env 0) (lib_id library) (env_basename env path)]"
    using f libmem
    by (simp add: insertUploadedPdf_def Let_def bindE_def insertItem_def insertAttachment_def
        insertAnnotationSet_def pdfItemRow_def newAnnotationSetRow_def)
  have get: "\<And>db' n. env_uuid env n \<notin> row_id ` set (items (w_db w)) \<Longrightarrow>
      items db' = items (w_db w) @ [pdfItemRow env (env_uuid env n) (lib_id library) (env_basename env path)] \<Longrightarrow>
      getItem db' (env_uuid env n) = Some (rowToItem (pdfItemRow env (env_uuid env n) (lib_id library) (env_basename env path)))"
    by (simp add: getItem_def find_snoc_fresh' pdfItemRow_def)
  have props: "\<And>n. item_version (rowToItem (pdfItemRow env (env_uuid env n) (lib_id library) (env_basename env path))) = 1
      \<and> \<not> item_deleted (rowToItem (pdfItemRow env (env_uuid env n) (lib_id library) (env_basename env path)))
      \<and> item_libraryId (rowToItem (pdfItemRow env (env_uuid env n) (lib_id library) (env_basename env path))) = lib_id library"
    by (simp add: rowToItem_def pdfItemRow_def)
  show ?thesis
  proof (cases "uploadPdf env library checksum (env_basename env path) path")
    case (Inl err)
    from queued obtain db' where q: "insertQueuedPdf env (w_db w) library checksum (env_basename env path) fileSize path = Inr db'"
      "items db' = items (w_db w) @ [pdfItemRow env (env_uuid env 1) (lib_id library) (env_basename env path)]"
      by blast
    show ?thesis
      unfolding addPdfToGroup_at_check [OF assms(1-4)] nodup
      using Inl q(1) store get [OF f(2) q(2)] props [of 1] by simp
  next
    case (Inr p)
    obtain opts driveFile where p: "p = (opts, driveFile)" by (cases p)
    from uploaded [of driveFile] obtain db' where q: "insertUploadedPdf env (w_db w) library checksum (env_basename env path) fileSize driveFile = Inr db'"
      "items db' = items (w_db w) @ [pdfItemRow env (env_uuid env 0) (lib_id library) (env_basename env path)]"
      by blast
    show ?thesis
      unfolding addPdfToGroup_at_check [OF assms(1-4)] nodup
      using Inr p q(1) store get [OF f(1) q(2)] props [of 0] by (simp add: Let_def)
  qed
qed

text \<open>
  Claim C10. When addPdfToGroup reaches its duplicate check (the file exists, its
  checksum and size are read, the library of the group is found), and the cache
  service raises no DuplicateError of its own, the call raises DuplicateError if and
  only if some attachment with this checksum belongs to an item of the target library
  with \<open>deleted = 0\<close>. When every attachment with this checksum in the library
  belongs to soft-deleted items, the fresh identifiers are new and the cache copy
  succeeds, the call returns the new item: soft-deleting an item frees the checksums
  of its PDFs.
\<close>

theorem addPdfToGroup_duplicate:
  assumes "env_existsSync env path" and "env_computeSHA256 env path = Inr checksum"
    and "env_statSize env path = Inr fileSize"
    and "find (\<lambda>l. lib_groupId l = Some groupId) (libraries (w_db w)) = Some library"
    and "\<forall>m. storePdf (env_cache env) checksum path \<noteq> Inl (DuplicateError m)"
  shows "((\<exists>m. snd (addPdfToGroup env w groupId path) = Inl (DuplicateError m)) \<longleftrightarrow>
            (\<exists>a\<in>set (attachments (w_db w)). att_checksum a = checksum \<and>
               (\<exists>i\<in>set (items (w_db w)). row_id i = att_itemId a
                   \<and> row_libraryId i = lib_id library \<and> row_deleted i = 0)))
       \<and> ((\<forall>a\<in>set (attachments (w_db w)). att_checksum a = checksum \<longrightarrow>
               (\<forall>i\<in>set (items (w_db w)). row_id i = att_itemId a
                   \<and> row_libraryId i = lib_id library \<longrightarrow> row_deleted i \<noteq> 0))
            \<and> freshUuids env (w_db w)
            \<and> (\<exists>dest. storePdf (env_cache env) checksum path = Inr dest) \<longrightarrow>
            (\<exists>w' it. addPdfToGroup env w groupId path = (w', Inr (Some it))
               \<and> item_version it = 1 \<and> \<not> item_deleted it
               \<and> item_libraryId it = lib_id library))"
proof (intro conjI iffI impI)
  assume "\<exists>m. snd (addPdfToGroup env w groupId path) = Inl (DuplicateError m)"
  then obtain m where m: "snd (addPdfToGroup env w groupId path) = Inl (DuplicateError m)" ..
  have "findDuplicate (w_db w) checksum (lib_id library) \<noteq> None"
  proof
    assume "findDuplicate (w_db w) checksum (lib_id library) = None"
    from addPdfToGroup_no_duplicate [OF assms(1-4) this assms(5)] m show False by blast
  qed
  then show "\<exists>a\<in>set (attachments (w_db w)). att_checksum a = checksum \<and>
               (\<exists>i\<in>set (items (w_db w)). row_id i = att_itemId a
                   \<and> row_libraryId i = lib_id library \<and> row_deleted i = 0)"
    unfolding findDuplicate_None by blast
next
  assume "\<exists>a\<in>set (attachments (w_db w)). att_checksum a = checksum \<and>
               (\<exists>i\<in>set (items (w_db w)). row_id i = att_itemId a
                   \<and> row_libraryId i = lib_id library \<and> row_deleted i = 0)"
  then have "findDuplicate (w_db w) checksum (lib_id library) \<noteq> None"
    unfolding findDuplicate_None by blast
  then obtain existing where "findDuplicate (w_db w) checksum (lib_id library) = Some existing"
    by blast
  then show "\<exists>m. snd (addPdfToGroup env w groupId path) = Inl (DuplicateError m)"
    unfolding addPdfToGroup_at_check [OF assms(1-4)] by simp
next
  assume a: "(\<forall>a\<in>set (attachments (w_db w)). att_checksum a = checksum \<longrightarrow>
               (\<forall>i\<in>set (items (w_db w)). row_id i = att_itemId a
                   \<and> row_libraryId i = lib_id library \<longrightarrow> row_deleted i \<noteq> 0))
            \<and> freshUuids env (w_db w)
            \<and> (\<exists>dest. storePdf (env_cache env) checksum path = Inr dest)"
  then have nodup: "findDuplicate (w_db w) checksum (lib_id library) = None"
    unfolding findDuplicate_None by blast
  from a obtain dest where store: "storePdf (env_cache env) checksum path = Inr dest" by blast
  from a have fresh: "freshUuids env (w_db w)" by blast
  show "\<exists>w' it. addPdfToGroup env w groupId path = (w', Inr (Some it))
               \<and> item_version it = 1 \<and> \<not> item_deleted it
               \<and> item_libraryId it = lib_id library"
    by (rule addPdfToGroup_succeeds [OF assms(1-4) nodup fresh store])
qed

lemmas world_eval = liveWorld_def deletedWorld_def storedAttachment_def deleteItem_def

theorem addPdfToGroup_duplicate_witness:
  "(\<exists>m. snd (addPdfToGroup testEnv liveWorld ''group-1'' ''/tmp/paper.pdf'') = Inl (DuplicateError m))
   \<and> (\<exists>w' it. addPdfToGroup testEnv deletedWorld ''group-1'' ''/tmp/paper.pdf'' = (w', Inr (Some it))
          \<and> item_version it = 1 \<and> \<not> item_deleted it \<and> item_libraryId it = ''lib-1'')"
proof -
  have e: "env_existsSync testEnv ''/tmp/paper.pdf''"
    and c: "env_computeSHA256 testEnv ''/tmp/paper.pdf'' = Inr ''abc123''"
    and z: "env_statSize testEnv ''/tmp/paper.pdf'' = Inr 1000"
    and s: "\<forall>m. storePdf (env_cache testEnv) ''abc123'' ''/tmp/paper.pdf'' \<noteq> Inl (DuplicateError m)"
    by (simp_all add: test_eval)
  have l1: "find (\<lambda>l. lib_groupId l = Some ''group-1'') (libraries (w_db liveWorld)) = Some testLib"
    and l2: "find (\<lambda>l. lib_groupId l = Some ''group-1'') (libraries (w_db deletedWorld)) = Some testLib"
    by (simp_all add: test_eval world_eval)
  have dup: "\<exists>a\<in>set (attachments (w_db liveWorld)). att_checksum a = ''abc123'' \<and>
               (\<exists>i\<in>set (items (w_db liveWorld)). row_id i = att_itemId a
                   \<and> row_libraryId i = lib_id testLib \<and> row_deleted i = 0)"
    by (simp add: test_eval world_eval)
  have nodup: "(\<forall>a\<in>set (attachments (w_db deletedWorld)). att_checksum a = ''abc123'' \<longrightarrow>
               (\<forall>i\<in>set (items (w_db deletedWorld)). row_id i = att_itemId a
                   \<and> row_libraryId i = lib_id testLib \<longrightarrow> row_deleted i \<noteq> 0))
            \<and> freshUuids testEnv (w_db deletedWorld)
            \<and> (\<exists>dest. storePdf (env_cache testEnv) ''abc123'' ''/tmp/paper.pdf'' = Inr dest)"
    by (simp add: test_eval world_eval freshUuids_def)
  have lid: "lib_id testLib = ''lib-1''" by (simp add: testLib_def)
  from addPdfToGroup_duplicate [OF e c z l1 s] dup
  have 1: "\<exists>m. snd (addPdfToGroup testEnv liveWorld ''group-1'' ''/tmp/paper.pdf'') = Inl (DuplicateError m)"
    by blast
  from addPdfToGroup_duplicate [OF e c z l2 s] nodup
  have 2: "\<exists>w' it. addPdfToGroup testEnv deletedWorld ''group-1'' ''/tmp/paper.pdf'' = (w', Inr (Some it))
          \<and> item_version it = 1 \<and> \<not> item_deleted it \<and> item_libraryId it = lib_id testLib"
    by blast
  from 1 2 lid show ?thesis by simp
qed

section \<open>Claims about saving annotations\<close>

lemma updateAnnotationSet_other [simp]:
  "libraries (updateAnnotationSet i f db) = libraries db"
  "items (updateAnnotationSet i f db) = items db"
  "attachments (updateAnnotationSet i f db) = attachments db"
  "upload_queue (updateAnnotationSet i f db) = upload_queue db"
  "sync_state (updateAnnotationSet i f db) = sync_state db"
  by (simp_all add: updateAnnotationSet_def)

lemma getters_updateAnnotationSet [simp]:
  "getAttachment (updateAnnotationSet i f db) = getAttachment db"
  "getItem (updateAnnotationSet i f db) = getItem db"
  "getLibrary (updateAnnotationSet i f db) = getLibrary db"
  by (simp_all add: getAttachment_def getItem_def getLibrary_def fun_eq_iff)

text \<open>
  Claim C6. When saveAnnotations finds an annotation set that already has a Drive
  file, and Drive reports a revision other than the one recorded locally, the sidecar
  handed to updateFile holds the merge of the annotations being saved with the
  annotations of the downloaded remote sidecar, and its version is
  \<open>max(local, remote) + 1\<close>, where \<open>local\<close> is the local version the save has just
  written (\<open>localVersion + 1\<close>). With local \<open>h1\<close> and remote \<open>n1\<close> the merged set is
  \<open>[h1, n1]\<close>, of length 2.
\<close>

theorem saveAnnotations_conflict:
  assumes row: "find (\<lambda>r. asr_attachmentId r = attachmentId) (annotation_sets (w_db w)) = Some annRow"
    and att: "getAttachment (w_db w) attachmentId = Some attachment"
    and item: "getItem (w_db w) (att_itemId attachment) = Some item"
    and lib: "getLibrary (w_db w) (item_libraryId item) = Some library"
    and root: "truthy (lib_driveRootId library) = Some driveRootId"
    and folder: "ensureFolder (env_drive env) (Some driveRootId) ''annotations'' = Inr folderId"
    and fileId: "truthy (asr_driveFileId annRow) = Some fileId"
    and meta: "getFileMetadata (env_drive env) fileId = Inr remoteMeta"
    and differs: "Some (df_headRevisionId remoteMeta) \<noteq> asr_driveRevision annRow"
    and remote: "downloadJSON (env_drive env) fileId = Inr remoteData"
    and upload: "updateFile (env_drive env) fileId
        \<lparr> sc_schemaVersion = 1, sc_attachmentId = attachmentId,
          sc_lastModified = env_nowISO env,
          sc_version = max (asr_localVersion annRow + 1) (sc_version remoteData) + 1,
          sc_createdBy = env_currentUserId env,
          sc_annotations = mergeAnnotations annotations (sc_annotations remoteData) \<rparr>
        ''application/json'' = Inr updated"
  shows "\<exists>w'. saveAnnotations env w attachmentId annotations = (w', Inr ())
      \<and> w_drive w' = w_drive w @
          [UpdateFile fileId
             \<lparr> sc_schemaVersion = 1, sc_attachmentId = attachmentId,
               sc_lastModified = env_nowISO env,
               sc_version = max (asr_localVersion annRow + 1) (sc_version remoteData) + 1,
               sc_createdBy = env_currentUserId env,
               sc_annotations = mergeAnnotations annotations (sc_annotations remoteData) \<rparr>
             ''application/json'']
      \<and> mergeAnnotations [h1] [n1] = [h1, n1]"
proof -
  have ex: "mergeAnnotations [h1] [n1] = [h1, n1]"
    by (simp add: merge_eval h1_def n1_def)
  show ?thesis
    using assms ex
    by (simp add: saveAnnotations_def uploadAnnotations_def reconcileSidecar_def
        rowToAnnotationSet_def Let_def bindE_def)
qed

lemmas conflict_eval =
  annotatedWorld_def storedAnnotationSet_def sidecarMeta_def remoteSidecar_def
  conflictDrive_def conflictEnv_def

theorem saveAnnotations_conflict_witness:
  "\<exists>w'. saveAnnotations conflictEnv annotatedWorld ''att-1'' [h1] = (w', Inr ())
      \<and> w_drive w' =
          [UpdateFile ''sidecar-1''
             \<lparr> sc_schemaVersion = 1, sc_attachmentId = ''att-1'',
               sc_lastModified = ''2024-06-01T12:00:00.000Z'', sc_version = 4,
               sc_createdBy = ''test-user'', sc_annotations = [h1, n1] \<rparr>
             ''application/json'']"
proof -
  have row: "find (\<lambda>r. asr_attachmentId r = ''att-1'') (annotation_sets (w_db annotatedWorld))
      = Some storedAnnotationSet"
    by (simp add: conflict_eval world_eval test_eval)
  have att: "getAttachment (w_db annotatedWorld) ''att-1'' = Some storedAttachment"
    by (simp add: getAttachment_def conflict_eval world_eval test_eval)
  have item: "getItem (w_db annotatedWorld) (att_itemId storedAttachment) = Some (rowToItem storedRow)"
    by (simp add: getItem_def conflict_eval world_eval test_eval)
  have lib: "getLibrary (w_db annotatedWorld) (item_libraryId (rowToItem storedRow)) = Some testLib"
    by (simp add: getLibrary_def rowToItem_def conflict_eval world_eval test_eval)
  have root: "truthy (lib_driveRootId testLib) = Some ''root-1''"
    by (simp add: truthy_def testLib_def)
  have folder: "ensureFolder (env_drive conflictEnv) (Some ''root-1'') ''annotations'' = Inr ''folder-id''"
    by (simp add: conflict_eval test_eval)
  have fileId: "truthy (asr_driveFileId storedAnnotationSet) = Some ''sidecar-1''"
    by (simp add: truthy_def storedAnnotationSet_def)
  have meta: "getFileMetadata (env_drive conflictEnv) ''sidecar-1'' = Inr (sidecarMeta ''rev-2'')"
    by (simp add: conflict_eval test_eval)
  have differs: "Some (df_headRevisionId (sidecarMeta ''rev-2'')) \<noteq> asr_driveRevision storedAnnotationSet"
    by (simp add: conflict_eval)
  have remote: "downloadJSON (env_drive conflictEnv) ''sidecar-1'' = Inr remoteSidecar"
    by (simp add: conflict_eval test_eval)
  have upload: "updateFile (env_drive conflictEnv) ''sidecar-1''
        \<lparr> sc_schemaVersion = 1, sc_attachmentId = ''att-1'',
          sc_lastModified = env_nowISO conflictEnv,
          sc_version = max (asr_localVersion storedAnnotationSet + 1) (sc_version remoteSidecar) + 1,
          sc_createdBy = env_currentUserId conflictEnv,
          sc_annotations = mergeAnnotations [h1] (sc_annotations remoteSidecar) \<rparr>
        ''application/json'' = Inr (sidecarMeta ''rev-3'')"
    by (simp add: conflict_eval test_eval)
  have vals: "env_nowISO conflictEnv = ''2024-06-01T12:00:00.000Z''"
    "env_currentUserId conflictEnv = ''test-user''"
    "max (asr_localVersion storedAnnotationSet + 1) (sc_version remoteSidecar) + 1 = 4"
    "sc_annotations remoteSidecar = [n1]" "w_drive annotatedWorld = []"
    by (simp_all add: conflict_eval test_eval world_eval)
  from saveAnnotations_conflict [OF row att item lib root folder fileId meta differs remote upload]
  obtain w' where a: "saveAnnotations conflictEnv annotatedWorld ''att-1'' [h1] = (w', Inr ())"
    "w_drive w' = w_drive annotatedWorld @
          [UpdateFile ''sidecar-1''
             \<lparr> sc_schemaVersion = 1, sc_attachmentId = ''att-1'',
               sc_lastModified = env_nowISO conflictEnv,
               sc_version = max (asr_localVersion storedAnnotationSet + 1) (sc_version remoteSidecar) + 1,
               sc_createdBy = env_currentUserId conflictEnv,
               sc_annotations = mergeAnnotations [h1] (sc_annotations remoteSidecar) \<rparr>
             ''application/json'']"
    "mergeAnnotations [h1] [n1] = [h1, n1]"
    by (elim exE conjE)
  show ?thesis
    apply (rule exI [of _ w'])
    using a by (simp add: vals)
qed

section \<open>Properties of the upload queue\<close>







lemma retryRow_id [simp]: "uq_id (retryRow now m u) = uq_id u"
  and retryRow_limit [simp]: "uq_maxRetries (retryRow now m u) = uq_maxRetries u"
  and completedRow_id [simp]: "uq_id (completedRow u) = uq_id u"
  and completedRow_limit [simp]: "uq_maxRetries (completedRow u) = uq_maxRetries u"
  by (simp_all add: retryRow_def completedRow_def)










section \<open>Claims about the upload queue\<close>

lemma preservesQueue_processPdfUpload: "preservesQueue (processPdfUpload env)"
  unfolding preservesQueue_def processPdfUpload_def
  by (auto simp: bindE_def Let_def split: option.splits sum.splits)

lemma preservesQueue_processAnnotationUpload: "preservesQueue (processAnnotationUpload env)"
  unfolding preservesQueue_def processAnnotationUpload_def
  by (auto simp: bindE_def Let_def updateAnnotationSet_def split: option.splits sum.splits)




section \<open>Claims about queued annotation uploads\<close>

lemma offlineSaved_eq:
  "offlineSaved =
     annotatedWorld\<lparr>w_db := (w_db annotatedWorld)\<lparr>
       annotation_sets :=
         [storedAnnotationSet\<lparr> asr_annotations := [h1], asr_localVersion := 3,
            asr_isDirty := 1, asr_modifiedAt := ''2024-06-01 12:00:00'' \<rparr>],
       upload_queue := [newQueueEntry testEnv ''uuid-0'' AnnotationUpload ''as-1'' None]\<rparr>\<rparr>"
  by (simp add: offlineSaved_def saveAnnotations_def uploadAnnotations_def
      rowToAnnotationSet_def updateAnnotationSet_def insertUploadQueue_def
      getAttachment_def getItem_def getLibrary_def rowToItem_def truthy_def bindE_def Let_def
      conflict_eval world_eval test_eval)

text \<open>
  Claim C5 fails on the code. processAnnotationUpload never reads the remote
  revision or the remote sidecar: its result is the same whatever getFileMetadata
  and downloadJSON answer. In the world where \<open>h1\<close> was saved offline and another user
  has since uploaded \<open>n1\<close> (Drive is at \<open>rev-2\<close>, the set records \<open>rev-1\<close>), the drain
  marks the entry completed after overwriting the remote sidecar with \<open>[h1]\<close> alone;
  saveAnnotations in the same situation uploads \<open>[h1, n1]\<close>.
\<close>

theorem queued_annotation_upload_overwrites:
  "processAnnotationUpload
      (env\<lparr>env_drive := (env_drive env)\<lparr>getFileMetadata := g, downloadJSON := d\<rparr>\<rparr>) upload w
     = processAnnotationUpload env upload w
   \<and> pendingUploads offlineSaved = [newQueueEntry testEnv ''uuid-0'' AnnotationUpload ''as-1'' None]
   \<and> getFileMetadata (env_drive conflictEnv) ''sidecar-1'' = Inr (sidecarMeta ''rev-2'')
   \<and> map asr_driveRevision (annotation_sets (w_db offlineSaved)) = [Some ''rev-1'']
   \<and> (\<exists>w' res. processUploadQueue (processPdfUpload conflictEnv)
                   (processAnnotationUpload conflictEnv) (env_dateNow conflictEnv)
                   offlineSaved zeroResult = (w', res, None)
        \<and> map uq_status (upload_queue (w_db w')) = [Completed]
        \<and> w_drive w' =
            [UpdateFile ''sidecar-1''
               \<lparr> sc_schemaVersion = 1, sc_attachmentId = ''att-1'',
                 sc_lastModified = ''2024-06-01T12:00:00.000Z'', sc_version = 3,
                 sc_createdBy = ''test-user'', sc_annotations = [h1] \<rparr>
               ''application/json''])"
proof -
  have 1: "processAnnotationUpload
      (env\<lparr>env_drive := (env_drive env)\<lparr>getFileMetadata := g, downloadJSON := d\<rparr>\<rparr>) upload w
     = processAnnotationUpload env upload w"
    by (simp add: processAnnotationUpload_def Let_def
        cong: option.case_cong sum.case_cong)
  have 2: "pendingUploads offlineSaved
      = [newQueueEntry testEnv ''uuid-0'' AnnotationUpload ''as-1'' None]"
    by (simp add: pendingUploads_def offlineSaved_eq newQueueEntry_def)
  have 3: "getFileMetadata (env_drive conflictEnv) ''sidecar-1'' = Inr (sidecarMeta ''rev-2'')"
    by (simp add: conflict_eval test_eval)
  have 4: "map asr_driveRevision (annotation_sets (w_db offlineSaved)) = [Some ''rev-1'']"
    by (simp add: offlineSaved_eq storedAnnotationSet_def)
  have h: "processAnnotationUpload conflictEnv
        (newQueueEntry testEnv ''uuid-0'' AnnotationUpload ''as-1'' None) offlineSaved
      = Inr (offlineSaved\<lparr>
          w_db := updateAnnotationSet ''as-1''
                    (\<lambda>r. r\<lparr> asr_driveRevision := Some ''rev-3'', asr_remoteVersion := 3,
                            asr_isDirty := 0 \<rparr>) (w_db offlineSaved),
          w_drive := [UpdateFile ''sidecar-1''
               \<lparr> sc_schemaVersion = 1, sc_attachmentId = ''att-1'',
                 sc_lastModified = ''2024-06-01T12:00:00.000Z'', sc_version = 3,
                 sc_createdBy = ''test-user'', sc_annotations = [h1] \<rparr>
               ''application/json'']\<rparr>)"
    by (simp add: processAnnotationUpload_def offlineSaved_eq newQueueEntry_def
        rowToAnnotationSet_def buildSidecar_def truthy_def bindE_def Let_def
        conflict_eval world_eval test_eval)
  have 5: "\<exists>w' res. processUploadQueue (processPdfUpload conflictEnv)
                   (processAnnotationUpload conflictEnv) (env_dateNow conflictEnv)
                   offlineSaved zeroResult = (w', res, None)
        \<and> map uq_status (upload_queue (w_db w')) = [Completed]
        \<and> w_drive w' =
            [UpdateFile ''sidecar-1''
               \<lparr> sc_schemaVersion = 1, sc_attachmentId = ''att-1'',
                 sc_lastModified = ''2024-06-01T12:00:00.000Z'', sc_version = 3,
                 sc_createdBy = ''test-user'', sc_annotations = [h1] \<rparr>
               ''application/json'']"
    unfolding processUploadQueue_def 2
    by (simp add: dispatch_def h updateQueue_def updateAnnotationSet_def)
       (simp add: newQueueEntry_def offlineSaved_eq)
  from 1 2 3 4 5 show ?thesis by blast
qed

section \<open>Claims about the sync loop\<close>

lemmas sync_eval =
  syncLoop_def pullChanges_def pushChanges_def pushOne_def lastSyncTimestamp_def
  setLastSync_def processUploadQueue_def pendingUploads_def pullItem_def Let_def

lemmas morning_eval =
  quietBackend_def busyBackend_def remoteV3_def envAt1000_def envAt1100_def envAt1105_def

lemma syncedWorld_eq:
  "syncedWorld =
     \<lparr> w_db = storedDB\<lparr>sync_state :=
         [\<lparr> ss_key = ''lastSyncTimestamp'', ss_value = ''2024-06-01T10:00:00.000Z'',
             ss_updatedAt = ''2024-06-01 10:00:00'' \<rparr>]\<rparr>,
       w_drive = [] \<rparr>"
  by (simp add: syncedWorld_def sync_eval morning_eval test_eval)

lemma editedWorld_eq:
  "editedWorld =
     \<lparr> w_db = storedDB\<lparr>
         items := [storedRow\<lparr> row_title := Some ''Updated'', row_authors := Some [],
                     row_tags := Some [], row_version := 2,
                     row_modifiedAt := ''2024-06-01 11:00:00'' \<rparr>],
         sync_state :=
           [\<lparr> ss_key = ''lastSyncTimestamp'', ss_value = ''2024-06-01T10:00:00.000Z'',
               ss_updatedAt = ''2024-06-01 10:00:00'' \<rparr>]\<rparr>,
       w_drive = [] \<rparr>"
  by (simp add: editedWorld_def syncedWorld_eq updateItem_def getItem_def rowToItem_def
      nullish_def Let_def morning_eval test_eval)

text \<open>
  The conflict branch of the pull loop, when it is reached: a local row whose
  \<open>modifiedAt\<close> compares above \<open>lastSync\<close> and a remote row of a greater version count
  one conflict and leave the database as it is.
\<close>

lemma pullItem_conflict:
  assumes "find (\<lambda>r. row_id r = row_id remote) (items db) = Some localRow"
    and "row_modifiedAt localRow > lastSync"
    and "row_version remote > row_version localRow"
  shows "pullItem lastSync remote db res = Inr (db, res\<lparr>conflicts := conflicts res + 1\<rparr>)"
  using assms by (simp add: pullItem_def)

text \<open>
  Claim C1 fails on the code. The item was retitled at 11:00, after the pass of 10:00
  wrote \<open>lastSyncTimestamp\<close>, and the pass of 11:05 pulls version 3 of it while the
  local row has version 2. The pass reports no conflict and overwrites the local
  title: updateItem stamps \<open>modifiedAt\<close> with \<^verbatim>\<open>datetime('now')\<close>, which separates date and
  time by a space, the cursor is an ISO string with a \<open>T\<close> there, and the space
  compares below the \<open>T\<close>, so an edit made on the day of the last pass never counts as
  local work.
\<close>

theorem same_day_edit_overwritten:
  "lastSyncTimestamp (w_db editedWorld) = ''2024-06-01T10:00:00.000Z''
   \<and> map row_version (items (w_db editedWorld)) = [2]
   \<and> map row_title (items (w_db editedWorld)) = [Some ''Updated'']
   \<and> map row_modifiedAt (items (w_db editedWorld)) = [''2024-06-01 11:00:00'']
   \<and> row_id remoteV3 = ''item-1'' \<and> row_version remoteV3 = 3
   \<and> snd (syncLoop envAt1105 editedWorld)
       = \<lparr> pushed = 1, pulled = 1, conflicts = 0, errors = 0 \<rparr>
   \<and> map row_title (items (w_db (fst (syncLoop envAt1105 editedWorld))))
       = [Some ''Remote title'']
   \<and> map row_version (items (w_db (fst (syncLoop envAt1105 editedWorld)))) = [3]"
  by (simp add: editedWorld_eq sync_eval morning_eval test_eval)

end
